theory Spec2Isabelle
  imports Main
begin

unbundle bit_operations_syntax

section \<open>Python values\<close>

text \<open>
  The three activities of \<^verbatim>\<open>platform_scripts/rita_messages\<close> take untyped Python
  arguments and hand JSON documents to RabbitMQ. A value is one of the JSON-representable
  Python objects; a dict is an association list in insertion order with string keys.
  Floats are left out. A \<open>char\<close> stands for the code point below 256 with the same number.
\<close>

datatype pyval =
    PNone
  | PBool bool
  | PInt int
  | PStr string
  | PList "pyval list"
  | PDict "(string \<times> pyval) list"

text \<open>The exceptions that the code can meet; the string is \<open>str(e)\<close>.\<close>

datatype exn =
    AttributeError string
  | TypeError string
  | ValueError string
  | JSONDecodeError string
  | OtherError string

fun exn_str :: "exn \<Rightarrow> string" where
  "exn_str (AttributeError m) = m"
| "exn_str (TypeError m) = m"
| "exn_str (ValueError m) = m"
| "exn_str (JSONDecodeError m) = m"
| "exn_str (OtherError m) = m"

text \<open>Truth value testing: \<open>if x\<close>, \<open>not x\<close>, \<open>x or y\<close>, \<open>bool(x)\<close>.\<close>

fun truthy :: "pyval \<Rightarrow> bool" where
  "truthy PNone = False"
| "truthy (PBool b) = b"
| "truthy (PInt i) = (i \<noteq> 0)"
| "truthy (PStr s) = (s \<noteq> [])"
| "truthy (PList xs) = (xs \<noteq> [])"
| "truthy (PDict kvs) = (kvs \<noteq> [])"

definition py_or :: "pyval \<Rightarrow> pyval \<Rightarrow> pyval" where
  "py_or a b = (if truthy a then a else b)"

text \<open>\<open>x if x else None\<close>\<close>

definition or_none :: "pyval \<Rightarrow> pyval" where
  "or_none v = (if truthy v then v else PNone)"

fun type_name :: "pyval \<Rightarrow> string" where
  "type_name PNone = ''NoneType''"
| "type_name (PBool b) = ''bool''"
| "type_name (PInt i) = ''int''"
| "type_name (PStr s) = ''str''"
| "type_name (PList xs) = ''list''"
| "type_name (PDict kvs) = ''dict''"

text \<open>The message of the AttributeError raised by \<open>v.attr\<close> on a value without it.\<close>

definition no_attribute :: "pyval \<Rightarrow> string \<Rightarrow> exn" where
  "no_attribute v attr =
     AttributeError ([CHR 0x27] @ type_name v @ [CHR 0x27] @ '' object has no attribute ''
                     @ [CHR 0x27] @ attr @ [CHR 0x27])"

subsection \<open>Dictionaries\<close>

text \<open>\<open>d[k] = v\<close>: an existing key keeps its place, a new one goes last.\<close>

fun dict_set :: "(string \<times> pyval) list \<Rightarrow> string \<Rightarrow> pyval \<Rightarrow> (string \<times> pyval) list" where
  "dict_set [] k v = [(k, v)]"
| "dict_set ((k', v') # d) k v = (if k' = k then (k, v) # d else (k', v') # dict_set d k v)"

definition has_key :: "string \<Rightarrow> (string \<times> pyval) list \<Rightarrow> bool" where
  "has_key k d = (map_of d k \<noteq> None)"

definition keys :: "pyval \<Rightarrow> string list" where
  "keys v = (case v of PDict d \<Rightarrow> map fst d | _ \<Rightarrow> [])"

definition field :: "pyval \<Rightarrow> string \<Rightarrow> pyval option" where
  "field v k = (case v of PDict d \<Rightarrow> map_of d k | _ \<Rightarrow> None)"

subsection \<open>Strings\<close>

text \<open>\<open>str.isspace\<close> on the code points below 256, as \<open>str.strip()\<close> and \<open>int()\<close> use it.\<close>

definition is_space :: "char \<Rightarrow> bool" where
  "is_space c = (let k = (of_char c :: nat) in
     (9 \<le> k \<and> k \<le> 13) \<or> (28 \<le> k \<and> k \<le> 32) \<or> k = 133 \<or> k = 160)"

definition strip_chars :: "(char \<Rightarrow> bool) \<Rightarrow> string \<Rightarrow> string" where
  "strip_chars p s = rev (dropWhile p (rev (dropWhile p s)))"

definition py_strip :: "string \<Rightarrow> string" where
  "py_strip s = strip_chars is_space s"

text \<open>\<open>str.lower()\<close>: the ASCII capitals and those of Latin-1 move up by 32.\<close>

definition lower_char :: "char \<Rightarrow> char" where
  "lower_char c = (let k = (of_char c :: nat) in
     if (65 \<le> k \<and> k \<le> 90) \<or> (192 \<le> k \<and> k \<le> 222 \<and> k \<noteq> 215) then char_of (k + 32) else c)"

definition py_lower :: "string \<Rightarrow> string" where
  "py_lower s = map lower_char s"

definition startswith :: "string \<Rightarrow> string \<Rightarrow> bool" where
  "startswith s p = (take (length p) s = p)"

text \<open>\<open>s.replace(old, '')\<close> for a non-empty \<open>old\<close>: occurrences go from left to right.\<close>

function remove_all :: "string \<Rightarrow> string \<Rightarrow> string" where
  "remove_all old s =
     (if old = [] \<or> s = [] then s
      else if take (length old) s = old then remove_all old (drop (length old) s)
      else hd s # remove_all old (tl s))"
  by pat_completeness auto
termination
  by (relation "measure (\<lambda>(old, s). length s)") auto

fun join :: "string \<Rightarrow> string list \<Rightarrow> string" where
  "join sep [] = []"
| "join sep [x] = x"
| "join sep (x # y # ys) = x @ sep @ join sep (y # ys)"

text \<open>\<open>str(n)\<close> of a list index.\<close>

function str_of_nat :: "nat \<Rightarrow> string" where
  "str_of_nat n = (if n < 10 then [char_of (48 + n)] else str_of_nat (n div 10) @ [char_of (48 + n mod 10)])"
  by pat_completeness auto
termination
  by (relation "measure id") auto

subsection \<open>Integers from strings\<close>

text \<open>
  The value of a digit character in a base, as \<open>int(s, base)\<close> reads it: \<open>0-9\<close>, then the
  letters of either case from ten on.
\<close>

definition digit_val :: "nat \<Rightarrow> char \<Rightarrow> nat option" where
  "digit_val base c = (let k = (of_char c :: nat);
       d = (if 48 \<le> k \<and> k \<le> 57 then k - 48
            else if 97 \<le> k \<and> k \<le> 122 then k - 87
            else if 65 \<le> k \<and> k \<le> 90 then k - 55
            else 37)
     in if d < base then Some d else None)"

text \<open>Digits with single underscores between them; \<open>None\<close> is a ValueError.\<close>

fun digits_us :: "nat \<Rightarrow> string \<Rightarrow> nat list option" where
  "digits_us base [] = None"
| "digits_us base [c] = map_option (\<lambda>d. [d]) (digit_val base c)"
| "digits_us base (c # c' # cs) =
     (case digit_val base c of
        None \<Rightarrow> None
      | Some d \<Rightarrow> map_option ((#) d) (digits_us base (if c' = CHR ''_'' then cs else c' # cs)))"

definition digits_value :: "nat \<Rightarrow> nat list \<Rightarrow> int" where
  "digits_value base ds = foldl (\<lambda>a d. int base * a + int d) 0 ds"

text \<open>
  \<open>int(s, base)\<close> on a string, for base 10 and base 16: surrounding white space (the
  ASCII one and, above ASCII, the Unicode one: the separators 28 to 31 are refused), a sign,
  for base 16 the prefix \<open>0x\<close> with one underscore allowed after it, then the digits.
  \<open>max_digits\<close> is the interpreter's limit on the number of digits of a literal whose base
  is not a power of two (\<open>sys.get_int_max_str_digits()\<close>, 0 for none).
\<close>

definition is_int_space :: "char \<Rightarrow> bool" where
  "is_int_space c = (let k = (of_char c :: nat) in
     (9 \<le> k \<and> k \<le> 13) \<or> k = 32 \<or> k = 133 \<or> k = 160)"

definition py_int_str :: "nat \<Rightarrow> nat \<Rightarrow> string \<Rightarrow> int option" where
  "py_int_str max_digits base s =
     (let t = strip_chars is_int_space s;
          neg = (t \<noteq> [] \<and> hd t = CHR ''-'');
          u = (if t \<noteq> [] \<and> (hd t = CHR ''-'' \<or> hd t = CHR ''+'') then tl t else t);
          v = (if base = 16 \<and> length u \<ge> 2 \<and> hd u = CHR ''0''
                  \<and> (u ! 1 = CHR ''x'' \<or> u ! 1 = CHR ''X'')
               then (let w = drop 2 u in if w \<noteq> [] \<and> hd w = CHR ''_'' then tl w else w)
               else u)
      in case digits_us base v of
           None \<Rightarrow> None
         | Some ds \<Rightarrow>
             if base \<noteq> 16 \<and> 0 < max_digits \<and> max_digits < length ds then None
             else Some (if neg then - digits_value base ds else digits_value base ds))"

subsection \<open>The standard library's UUID\<close>

text \<open>
  \<open>uuid.UUID(hex, version=version)\<close>: the text loses \<open>urn:\<close>, \<open>uuid:\<close>, surrounding braces
  and every hyphen, must then have 32 characters and is read as a base-16 integer in
  range; the variant bits become RFC 4122's and the version nibble \<open>version\<close>.
\<close>

definition is_brace :: "char \<Rightarrow> bool" where
  "is_brace c = (c = CHR ''{'' \<or> c = CHR ''}'')"

definition set_version :: "int \<Rightarrow> int \<Rightarrow> int" where
  "set_version version n =
     (let n1 = n AND NOT (push_bit 48 0xc000);
          n2 = n1 OR push_bit 48 0x8000;
          n3 = n2 AND NOT (push_bit 64 0xf000)
      in n3 OR push_bit 76 version)"

definition uuid_UUID :: "string \<Rightarrow> int \<Rightarrow> exn + int" where
  "uuid_UUID hex version =
     (let hex1 = remove_all ''uuid:'' (remove_all ''urn:'' hex);
          hex2 = remove_all ''-'' (strip_chars is_brace hex1)
      in if length hex2 \<noteq> 32 then Inl (ValueError ''badly formed hexadecimal UUID string'')
         else case py_int_str 0 16 hex2 of
                None \<Rightarrow> Inl (ValueError ''invalid literal for int() with base 16'')
              | Some n \<Rightarrow>
                  if \<not> (0 \<le> n \<and> n < 2 ^ 128)
                  then Inl (ValueError ''int is out of range (need a 128-bit value)'')
                  else if \<not> (1 \<le> version \<and> version \<le> 5)
                  then Inl (ValueError ''illegal version number'')
                  else Inr (set_version version n))"

definition hex_char :: "nat \<Rightarrow> char" where
  "hex_char d = (if d < 10 then char_of (48 + d) else char_of (87 + d))"

text \<open>\<open>'%032x' % n\<close> for \<open>0 \<le> n < 2 ^ 128\<close>, the range of a UUID's integer.\<close>

definition fmt_032x :: "int \<Rightarrow> string" where
  "fmt_032x n = map (\<lambda>i. hex_char (nat ((n div 16 ^ (31 - i)) mod 16))) [0..<32]"

text \<open>\<open>str(uuid_obj)\<close>\<close>

definition uuid_str :: "int \<Rightarrow> string" where
  "uuid_str n = (let hex = fmt_032x n in
     take 8 hex @ ''-'' @ take 4 (drop 8 hex) @ ''-'' @ take 4 (drop 12 hex) @ ''-''
       @ take 4 (drop 16 hex) @ ''-'' @ drop 20 hex)"

section \<open>The collaborators outside the activities\<close>

text \<open>
  What an activity reaches outside itself: \<open>json.loads\<close> (\<open>Inl m\<close> is a JSONDecodeError
  with text \<open>m\<close>), \<open>install_and_import('pika')\<close> and the hand-off \<open>send_to_rabbitmq\<close>
  (\<open>Some e\<close>: the call raises \<open>e\<close>), the clock read by
  \<open>datetime.now(timezone.utc).isoformat()\<close>, and the interpreter's digit limit of \<open>int()\<close>.
\<close>

record env =
  json_loads :: "string \<Rightarrow> string + pyval"
  pika_import :: "exn option"
  broker :: "pyval \<Rightarrow> pyval \<Rightarrow> pyval \<Rightarrow> exn option"
  utcnow :: string
  int_max_str_digits :: nat

text \<open>One invocation of \<open>send_to_rabbitmq(message_body, rabbitmq_url, queue_name)\<close>.\<close>

type_synonym publish = "pyval \<times> pyval \<times> pyval"

definition sq :: string where
  "sq = [CHR 0x27]"

definition is_str :: "pyval \<Rightarrow> bool" where
  "is_str v = (case v of PStr _ \<Rightarrow> True | _ \<Rightarrow> False)"

definition is_list :: "pyval \<Rightarrow> bool" where
  "is_list v = (case v of PList _ \<Rightarrow> True | _ \<Rightarrow> False)"

definition is_dict :: "pyval \<Rightarrow> bool" where
  "is_dict v = (case v of PDict _ \<Rightarrow> True | _ \<Rightarrow> False)"

definition is_bool :: "pyval \<Rightarrow> bool" where
  "is_bool v = (case v of PBool _ \<Rightarrow> True | _ \<Rightarrow> False)"

text \<open>\<open>json.loads(v) if isinstance(v, str) else v\<close>\<close>

definition loads_if_str :: "env \<Rightarrow> pyval \<Rightarrow> exn + pyval" where
  "loads_if_str env v =
     (case v of
        PStr s \<Rightarrow> (case json_loads env s of Inl m \<Rightarrow> Inl (JSONDecodeError m) | Inr x \<Rightarrow> Inr x)
      | _ \<Rightarrow> Inr v)"

text \<open>\<open>v.strip() if v else None\<close>\<close>

definition strip_or_none :: "pyval \<Rightarrow> exn + pyval" where
  "strip_or_none v =
     (if truthy v
      then (case v of PStr s \<Rightarrow> Inr (PStr (py_strip s)) | _ \<Rightarrow> Inl (no_attribute v ''strip''))
      else Inr PNone)"

definition error_result :: "string \<Rightarrow> pyval" where
  "error_result m = PDict [(''status'', PStr ''error''), (''error'', PStr m)]"

definition validation_failed :: "string \<Rightarrow> pyval" where
  "validation_failed m = error_result (''Validation failed: '' @ m)"

text \<open>
  \<open>validate_rabbitmq_url\<close>, the same in the three modules. A result \<open>Some m\<close> is the pair
  \<open>(False, m)\<close>, \<open>None\<close> is \<open>(True, None)\<close>; a URL that is not a string has no
  \<open>startswith\<close>.
\<close>

definition validate_rabbitmq_url :: "pyval \<Rightarrow> pyval \<Rightarrow> exn + string option" where
  "validate_rabbitmq_url rabbitmq_url queue_name =
     (if \<not> truthy rabbitmq_url then Inr (Some ''rabbitmq_url is required'')
      else if \<not> truthy queue_name then Inr (Some ''queue_name is required'')
      else case rabbitmq_url of
             PStr u \<Rightarrow>
               if \<not> (startswith u ''amqp://'' \<or> startswith u ''amqps://'')
               then Inr (Some (''rabbitmq_url must start with '' @ sq @ ''amqp://'' @ sq
                               @ '' or '' @ sq @ ''amqps://'' @ sq))
               else Inr None
           | _ \<Rightarrow> Inl (no_attribute rabbitmq_url ''startswith''))"

section \<open>The complete-message activity\<close>

definition validate_response_group_id :: "pyval \<Rightarrow> string option" where
  "validate_response_group_id response_group_id =
     (if truthy response_group_id
      then (case response_group_id of
              PStr s \<Rightarrow>
                (case uuid_UUID s 4 of
                   Inl e \<Rightarrow> Some ''response_group_id must be a valid UUID v4''
                 | Inr uuid_obj \<Rightarrow>
                     if uuid_str uuid_obj \<noteq> py_lower s
                     then Some ''response_group_id must be a valid UUID v4''
                     else None)
            | _ \<Rightarrow> Some ''response_group_id must be a valid UUID v4'')
      else None)"

text \<open>The loop over the sources, \<open>idx\<close> counting from the position reached.\<close>

fun check_sources :: "nat \<Rightarrow> pyval list \<Rightarrow> string option" where
  "check_sources idx [] = None"
| "check_sources idx (source # rest) =
     (case source of
        PDict d \<Rightarrow>
          if \<not> has_key ''url'' d
          then Some (''sources['' @ str_of_nat idx @ ''] missing required field '' @ sq @ ''url'' @ sq)
          else if \<not> has_key ''title'' d
          then Some (''sources['' @ str_of_nat idx @ ''] missing required field '' @ sq @ ''title'' @ sq)
          else check_sources (Suc idx) rest
      | _ \<Rightarrow> Some (''sources['' @ str_of_nat idx @ ''] must be an object''))"

fun check_tasks :: "nat \<Rightarrow> pyval list \<Rightarrow> string option" where
  "check_tasks idx [] = None"
| "check_tasks idx (task # rest) =
     (case task of
        PDict d \<Rightarrow>
          if \<not> has_key ''title'' d
          then Some (''tasks['' @ str_of_nat idx @ ''] missing required field '' @ sq @ ''title'' @ sq)
          else if \<not> has_key ''items'' d
          then Some (''tasks['' @ str_of_nat idx @ ''] missing required field '' @ sq @ ''items'' @ sq)
          else if \<not> (case map_of d ''items'' of Some v \<Rightarrow> is_list v | None \<Rightarrow> False)
          then Some (''tasks['' @ str_of_nat idx @ ''].items must be a list'')
          else if has_key ''defaultOpen'' d
                  \<and> \<not> (case map_of d ''defaultOpen'' of Some v \<Rightarrow> is_bool v | None \<Rightarrow> False)
          then Some (''tasks['' @ str_of_nat idx @ ''].defaultOpen must be a boolean'')
          else check_tasks (Suc idx) rest
      | _ \<Rightarrow> Some (''tasks['' @ str_of_nat idx @ ''] must be an object''))"

text \<open>The two \<open>try\<close> blocks of \<open>validate_parameters\<close>, then the function itself.\<close>

definition sources_block :: "env \<Rightarrow> pyval \<Rightarrow> string option" where
  "sources_block env sources =
     (if truthy sources
      then (case loads_if_str env sources of
              Inl e \<Rightarrow> Some (''sources JSON parsing error: '' @ exn_str e)
            | Inr sources_list \<Rightarrow>
                (case sources_list of
                   PList xs \<Rightarrow> check_sources 0 xs
                 | _ \<Rightarrow> Some ''sources must be a list''))
      else None)"

definition tasks_block :: "env \<Rightarrow> pyval \<Rightarrow> string option" where
  "tasks_block env tasks =
     (if truthy tasks
      then (case loads_if_str env tasks of
              Inl e \<Rightarrow> Some (''tasks JSON parsing error: '' @ exn_str e)
            | Inr tasks_list \<Rightarrow>
                (case tasks_list of
                   PList xs \<Rightarrow> check_tasks 0 xs
                 | _ \<Rightarrow> Some ''tasks must be a list''))
      else None)"

definition validate_parameters ::
  "env \<Rightarrow> pyval \<Rightarrow> pyval \<Rightarrow> pyval \<Rightarrow> pyval \<Rightarrow> pyval \<Rightarrow> string option" where
  "validate_parameters env tenant_id message_id conversation_id sources tasks =
     (if \<not> truthy tenant_id then Some ''tenant_id is required''
      else if \<not> truthy message_id then Some ''message_id is required''
      else if \<not> truthy conversation_id then Some ''conversation_id is required''
      else case sources_block env sources of
             Some m \<Rightarrow> Some m
           | None \<Rightarrow> tasks_block env tasks)"

text \<open>The conversion of \<open>turn_complete\<close> at the head of \<open>execute\<close>.\<close>

definition convert_turn_complete :: "pyval \<Rightarrow> pyval" where
  "convert_turn_complete turn_complete =
     (if turn_complete \<noteq> PNone \<and> turn_complete \<noteq> PStr []
      then (case turn_complete of
              PStr s \<Rightarrow> PBool (py_lower s \<in> set [''true'', ''1'', ''yes''])
            | _ \<Rightarrow> PBool (truthy turn_complete))
      else PNone)"

text \<open>
  \<open>(text_content and text_content.strip()) or reasoning_content or sources or tasks\<close>,
  as the truth value that \<open>if not has_content\<close> tests.
\<close>

definition has_content :: "pyval \<Rightarrow> pyval \<Rightarrow> pyval \<Rightarrow> pyval \<Rightarrow> exn + bool" where
  "has_content text_content reasoning_content sources tasks =
     (if truthy text_content
      then (case text_content of
              PStr s \<Rightarrow> Inr (py_strip s \<noteq> [] \<or> truthy reasoning_content \<or> truthy sources
                              \<or> truthy tasks)
            | _ \<Rightarrow> Inl (no_attribute text_content ''strip''))
      else Inr (truthy reasoning_content \<or> truthy sources \<or> truthy tasks))"

text \<open>The assembly of the message, from the base message to just before the hand-off.\<close>

definition cm_build_message ::
  "env \<Rightarrow> pyval \<Rightarrow> pyval \<Rightarrow> pyval \<Rightarrow> pyval \<Rightarrow> pyval \<Rightarrow> pyval \<Rightarrow> pyval \<Rightarrow> pyval
     \<Rightarrow> pyval \<Rightarrow> pyval \<Rightarrow> pyval \<Rightarrow> exn + pyval" where
  "cm_build_message env text_content reasoning_content reasoning_title sources tasks
       response_group_id tenant_id message_id conversation_id turn_complete citation_variant =
     (let message = [(''message_id'', message_id), (''conversation_id'', conversation_id),
                     (''tenant_id'', tenant_id), (''response'', text_content)];
          reasoning = [(''content'', reasoning_content), (''state'', PStr ''done'')];
          metadata1 = (if truthy reasoning_content
                       then dict_set [] ''reasoning''
                              (PDict (if truthy reasoning_title
                                      then dict_set reasoning ''title'' reasoning_title
                                      else reasoning))
                       else [])
      in case (if truthy sources
               then (case loads_if_str env sources of
                       Inl e \<Rightarrow> Inl e
                     | Inr v \<Rightarrow> Inr (dict_set metadata1 ''sources'' v))
               else Inr metadata1) of
           Inl e \<Rightarrow> Inl e
         | Inr metadata2 \<Rightarrow>
             (case (if truthy tasks
                    then (case loads_if_str env tasks of
                            Inl e \<Rightarrow> Inl e
                          | Inr v \<Rightarrow> Inr (dict_set metadata2 ''tasks'' v))
                    else Inr metadata2) of
                Inl e \<Rightarrow> Inl e
              | Inr metadata3 \<Rightarrow>
                  (let metadata4 = (if turn_complete \<noteq> PNone
                                    then dict_set metadata3 ''turn_complete'' turn_complete
                                    else metadata3);
                       metadata = (if citation_variant \<noteq> PNone
                                   then dict_set metadata4 ''citation_variant'' citation_variant
                                   else metadata4);
                       message1 = (if metadata \<noteq> []
                                   then dict_set message ''metadata'' (PDict metadata)
                                   else message);
                       message2 = (if truthy response_group_id
                                   then dict_set message1 ''response_group_id'' response_group_id
                                   else message1)
                   in Inr (PDict message2))))"

text \<open>
  The body of \<open>execute\<close> inside its \<open>try\<close>: what it returns or raises, and the hand-offs
  it made. The arguments are those of the source, in its order.
\<close>

definition cm_body ::
  "env \<Rightarrow> pyval \<Rightarrow> pyval \<Rightarrow> pyval \<Rightarrow> pyval \<Rightarrow> pyval \<Rightarrow> pyval \<Rightarrow> pyval \<Rightarrow> pyval
     \<Rightarrow> pyval \<Rightarrow> pyval \<Rightarrow> pyval \<Rightarrow> pyval \<Rightarrow> pyval \<Rightarrow> (exn + pyval) \<times> publish list" where
  "cm_body env rabbitmq_url queue_name text_content0 reasoning_content0 reasoning_title0
       sources0 tasks0 response_group_id0 tenant_id message_id conversation_id turn_complete0
       citation_variant0 =
     (let text_content = py_or text_content0 (PStr []);
          reasoning_content = or_none reasoning_content0;
          reasoning_title = or_none reasoning_title0;
          sources = or_none sources0;
          tasks = or_none tasks0;
          response_group_id = or_none response_group_id0;
          turn_complete = convert_turn_complete turn_complete0;
          citation_variant = or_none citation_variant0
      in case validate_response_group_id response_group_id of
           Some m \<Rightarrow> (Inr (validation_failed m), [])
         | None \<Rightarrow>
        (case validate_rabbitmq_url rabbitmq_url queue_name of
           Inl e \<Rightarrow> (Inl e, [])
         | Inr (Some m) \<Rightarrow> (Inr (validation_failed m), [])
         | Inr None \<Rightarrow>
        (case validate_parameters env tenant_id message_id conversation_id sources tasks of
           Some m \<Rightarrow> (Inr (validation_failed m), [])
         | None \<Rightarrow>
        (case has_content text_content reasoning_content sources tasks of
           Inl e \<Rightarrow> (Inl e, [])
         | Inr False \<Rightarrow>
             (Inr (validation_failed
                ''at least one of text_content, reasoning_content, sources, or tasks is required''),
              [])
         | Inr True \<Rightarrow>
        (case pika_import env of
           Some e \<Rightarrow> (Inl e, [])
         | None \<Rightarrow>
        (case cm_build_message env text_content reasoning_content reasoning_title sources tasks
                response_group_id tenant_id message_id conversation_id turn_complete
                citation_variant of
           Inl e \<Rightarrow> (Inl e, [])
         | Inr message \<Rightarrow>
        (case broker env message rabbitmq_url queue_name of
           Some e \<Rightarrow> (Inl e, [(message, rabbitmq_url, queue_name)])
         | None \<Rightarrow>
             (Inr (PDict [(''status'', PStr ''success''), (''message_id'', message_id),
                          (''message'', message)]),
              [(message, rabbitmq_url, queue_name)]))))))))"

text \<open>\<open>except Exception as e\<close>: whatever the body raised becomes an error result.\<close>

definition catch_all :: "(exn + pyval) \<times> publish list \<Rightarrow> pyval \<times> publish list" where
  "catch_all r = (case fst r of Inl e \<Rightarrow> (error_result (exn_str e), snd r) | Inr v \<Rightarrow> (v, snd r))"

definition cm_execute ::
  "env \<Rightarrow> pyval \<Rightarrow> pyval \<Rightarrow> pyval \<Rightarrow> pyval \<Rightarrow> pyval \<Rightarrow> pyval \<Rightarrow> pyval \<Rightarrow> pyval
     \<Rightarrow> pyval \<Rightarrow> pyval \<Rightarrow> pyval \<Rightarrow> pyval \<Rightarrow> pyval \<Rightarrow> pyval \<times> publish list" where
  "cm_execute env rabbitmq_url queue_name text_content reasoning_content reasoning_title
       sources tasks response_group_id tenant_id message_id conversation_id turn_complete
       citation_variant =
     catch_all (cm_body env rabbitmq_url queue_name text_content reasoning_content
                  reasoning_title sources tasks response_group_id tenant_id message_id
                  conversation_id turn_complete citation_variant)"

section \<open>The data-source-status activity\<close>

text \<open>\<open>int(v)\<close> on a value: a ValueError or a TypeError where Python raises one.\<close>

definition py_int :: "env \<Rightarrow> pyval \<Rightarrow> exn + int" where
  "py_int env v =
     (case v of
        PInt i \<Rightarrow> Inr i
      | PBool b \<Rightarrow> Inr (if b then 1 else 0)
      | PStr s \<Rightarrow>
          (case py_int_str (int_max_str_digits env) 10 s of
             None \<Rightarrow> Inl (ValueError ''invalid literal for int() with base 10'')
           | Some n \<Rightarrow> Inr n)
      | _ \<Rightarrow> Inl (TypeError ''int() argument must be a string, a bytes-like object or a real number''))"

definition sync_statuses :: "string list" where
  "sync_statuses = [''sync_started'', ''sync_completed'', ''sync_failed'']"

definition validate_sync_message ::
  "env \<Rightarrow> pyval \<Rightarrow> pyval \<Rightarrow> pyval \<Rightarrow> pyval \<Rightarrow> pyval \<Rightarrow> string option" where
  "validate_sync_message env connection_id tenant_id status error_message documents_processed =
     (if \<not> truthy connection_id then Some ''connection_id is required''
      else if \<not> truthy tenant_id then Some ''tenant_id is required''
      else if \<not> truthy status then Some ''status is required''
      else if status \<notin> set (map PStr sync_statuses)
      then Some (''status must be one of: '' @ join '', '' sync_statuses)
      else if status = PStr ''sync_completed'' \<and> documents_processed \<noteq> PNone
      then (case py_int env documents_processed of
              Inl e \<Rightarrow> Some ''documents_processed must be a valid integer''
            | Inr n \<Rightarrow> if n < 0 then Some ''documents_processed must be >= 0'' else None)
      else None)"

definition verification_statuses :: "string list" where
  "verification_statuses = [''success'', ''failed'']"

definition validate_verification_message ::
  "env \<Rightarrow> pyval \<Rightarrow> pyval \<Rightarrow> pyval \<Rightarrow> pyval \<Rightarrow> pyval \<Rightarrow> string option" where
  "validate_verification_message env connection_id tenant_id status verification_options
       verification_error =
     (if \<not> truthy connection_id then Some ''connection_id is required''
      else if \<not> truthy tenant_id then Some ''tenant_id is required''
      else if \<not> truthy status then Some ''status is required''
      else if status \<notin> set (map PStr verification_statuses)
      then Some (''status must be one of: '' @ join '', '' verification_statuses)
      else if truthy verification_options
      then (case loads_if_str env verification_options of
              Inl e \<Rightarrow> Some (''verification_options JSON parsing error: '' @ exn_str e)
            | Inr parsed_options \<Rightarrow>
                if \<not> (is_dict parsed_options \<or> is_list parsed_options)
                then Some ''verification_options must be a JSON object or array''
                else None)
      else None)"

text \<open>
  The branch \<open>message_type == 'sync'\<close>: \<open>Inl r\<close> is the early \<open>return\<close> of the result
  \<open>r\<close>, \<open>Inr m\<close> the message built.
\<close>

definition ds_sync_branch ::
  "env \<Rightarrow> pyval \<Rightarrow> pyval \<Rightarrow> pyval \<Rightarrow> pyval \<Rightarrow> pyval \<Rightarrow> pyval + pyval" where
  "ds_sync_branch env connection_id tenant_id status error_message documents_processed =
     (case validate_sync_message env connection_id tenant_id status error_message
             documents_processed of
        Some m \<Rightarrow> Inl (validation_failed m)
      | None \<Rightarrow>
          (let message = [(''type'', PStr ''sync''), (''connection_id'', connection_id),
                          (''tenant_id'', tenant_id), (''status'', status),
                          (''timestamp'', PStr (utcnow env))];
               message1 = (if truthy error_message
                           then dict_set message ''error_message'' error_message else message);
               message2 = (if documents_processed \<noteq> PNone
                           then dict_set message1 ''documents_processed'' documents_processed
                           else message1)
           in Inr (PDict message2)))"

text \<open>The status that the branch \<open>message_type == 'verification'\<close> works with.\<close>

definition auto_status :: "pyval \<Rightarrow> pyval \<Rightarrow> pyval" where
  "auto_status status verification_error =
     (if \<not> truthy status \<or> status = PStr []
      then (if truthy verification_error then PStr ''failed'' else PStr ''success'')
      else status)"

definition ds_verification_branch ::
  "env \<Rightarrow> pyval \<Rightarrow> pyval \<Rightarrow> pyval \<Rightarrow> pyval \<Rightarrow> pyval \<Rightarrow> exn + (pyval + pyval)" where
  "ds_verification_branch env connection_id tenant_id status0 verification_options
       verification_error =
     (let status = auto_status status0 verification_error
      in case validate_verification_message env connection_id tenant_id status
                verification_options verification_error of
           Some m \<Rightarrow> Inr (Inl (validation_failed m))
         | None \<Rightarrow>
             (let message = [(''type'', PStr ''verification''), (''connection_id'', connection_id),
                             (''tenant_id'', tenant_id), (''status'', status),
                             (''options'', PNone), (''error'', PNone)]
              in case (if truthy verification_options
                       then (case loads_if_str env verification_options of
                               Inl e \<Rightarrow> Inl e
                             | Inr v \<Rightarrow> Inr (dict_set message ''options'' v))
                       else Inr message) of
                   Inl e \<Rightarrow> Inl e
                 | Inr message1 \<Rightarrow>
                     Inr (Inr (PDict (if truthy verification_error
                                      then dict_set message1 ''error'' verification_error
                                      else message1)))))"

text \<open>The conversion of \<open>documents_processed\<close> at the head of \<open>execute\<close>.\<close>

definition convert_documents_processed :: "env \<Rightarrow> pyval \<Rightarrow> pyval + pyval" where
  "convert_documents_processed env documents_processed =
     (if documents_processed \<noteq> PNone \<and> documents_processed \<noteq> PStr []
      then (case py_int env documents_processed of
              Inl e \<Rightarrow> Inl (error_result ''documents_processed must be a valid integer'')
            | Inr n \<Rightarrow> Inr (PInt n))
      else Inr PNone)"

text \<open>The tail shared by the three activities: import pika, hand the message off, report.\<close>

definition hand_off ::
  "env \<Rightarrow> pyval \<Rightarrow> pyval \<Rightarrow> pyval \<Rightarrow> pyval \<Rightarrow> (exn + pyval) \<times> publish list" where
  "hand_off env message rabbitmq_url queue_name success =
     (case pika_import env of
        Some e \<Rightarrow> (Inl e, [])
      | None \<Rightarrow>
          (case broker env message rabbitmq_url queue_name of
             Some e \<Rightarrow> (Inl e, [(message, rabbitmq_url, queue_name)])
           | None \<Rightarrow> (Inr success, [(message, rabbitmq_url, queue_name)])))"

definition ds_body ::
  "env \<Rightarrow> pyval \<Rightarrow> pyval \<Rightarrow> pyval \<Rightarrow> pyval \<Rightarrow> pyval \<Rightarrow> pyval \<Rightarrow> pyval \<Rightarrow> pyval
     \<Rightarrow> pyval \<Rightarrow> pyval \<Rightarrow> (exn + pyval) \<times> publish list" where
  "ds_body env rabbitmq_url queue_name message_type0 connection_id0 tenant_id0 status0
       error_message0 documents_processed0 verification_options0 verification_error0 =
     (case strip_or_none message_type0 of Inl e \<Rightarrow> (Inl e, []) | Inr message_type \<Rightarrow>
     (case strip_or_none connection_id0 of Inl e \<Rightarrow> (Inl e, []) | Inr connection_id \<Rightarrow>
     (case strip_or_none tenant_id0 of Inl e \<Rightarrow> (Inl e, []) | Inr tenant_id \<Rightarrow>
     (case strip_or_none status0 of Inl e \<Rightarrow> (Inl e, []) | Inr status \<Rightarrow>
     (case strip_or_none error_message0 of Inl e \<Rightarrow> (Inl e, []) | Inr error_message \<Rightarrow>
     (case strip_or_none verification_error0 of Inl e \<Rightarrow> (Inl e, []) | Inr verification_error \<Rightarrow>
     (let verification_options = or_none verification_options0
      in case convert_documents_processed env documents_processed0 of
           Inl r \<Rightarrow> (Inr r, [])
         | Inr documents_processed \<Rightarrow>
        (case validate_rabbitmq_url rabbitmq_url queue_name of
           Inl e \<Rightarrow> (Inl e, [])
         | Inr (Some m) \<Rightarrow> (Inr (validation_failed m), [])
         | Inr None \<Rightarrow>
             if \<not> truthy message_type
                \<or> message_type \<notin> set [PStr ''sync'', PStr ''verification'']
             then (Inr (error_result (''message_type must be '' @ sq @ ''sync'' @ sq @ '' or ''
                                       @ sq @ ''verification'' @ sq)), [])
             else
               (case (if message_type = PStr ''sync''
                      then Inr (ds_sync_branch env connection_id tenant_id status error_message
                                  documents_processed)
                      else if message_type = PStr ''verification''
                      then ds_verification_branch env connection_id tenant_id status
                             verification_options verification_error
                      else Inr (Inr (PDict []))) of
                  Inl e \<Rightarrow> (Inl e, [])
                | Inr (Inl r) \<Rightarrow> (Inr r, [])
                | Inr (Inr message) \<Rightarrow>
                    hand_off env message rabbitmq_url queue_name
                      (PDict [(''status'', PStr ''success''), (''message_type'', message_type),
                              (''connection_id'', connection_id), (''message'', message)]))))))))))"

definition ds_execute ::
  "env \<Rightarrow> pyval \<Rightarrow> pyval \<Rightarrow> pyval \<Rightarrow> pyval \<Rightarrow> pyval \<Rightarrow> pyval \<Rightarrow> pyval \<Rightarrow> pyval
     \<Rightarrow> pyval \<Rightarrow> pyval \<Rightarrow> pyval \<times> publish list" where
  "ds_execute env rabbitmq_url queue_name message_type connection_id tenant_id status
       error_message documents_processed verification_options verification_error =
     catch_all (ds_body env rabbitmq_url queue_name message_type connection_id tenant_id status
                  error_message documents_processed verification_options verification_error)"

section \<open>The document-processing-status activity\<close>

definition processing_statuses :: "string list" where
  "processing_statuses = [''processing_completed'', ''processing_failed'']"

definition validate_message :: "pyval \<Rightarrow> pyval \<Rightarrow> pyval \<Rightarrow> string option" where
  "validate_message blob_metadata_id tenant_id status =
     (if \<not> truthy blob_metadata_id then Some ''blob_metadata_id is required''
      else if \<not> truthy tenant_id then Some ''tenant_id is required''
      else if \<not> truthy status then Some ''status is required''
      else if status \<notin> set (map PStr processing_statuses)
      then Some (''status must be one of: '' @ join '', '' processing_statuses)
      else None)"

definition dp_build_message ::
  "env \<Rightarrow> pyval \<Rightarrow> pyval \<Rightarrow> pyval \<Rightarrow> pyval \<Rightarrow> pyval \<Rightarrow> pyval \<Rightarrow> pyval" where
  "dp_build_message env blob_metadata_id tenant_id user_id status processed_markdown
       error_message =
     (let message = [(''type'', PStr ''document_processing''),
                     (''blob_metadata_id'', blob_metadata_id), (''tenant_id'', tenant_id),
                     (''status'', status), (''timestamp'', PStr (utcnow env))];
          message1 = (if truthy user_id then dict_set message ''user_id'' user_id else message);
          message2 = (if truthy processed_markdown
                      then dict_set message1 ''processed_markdown'' processed_markdown
                      else message1);
          message3 = (if truthy error_message
                      then dict_set message2 ''error_message'' error_message else message2)
      in PDict message3)"

definition dp_body ::
  "env \<Rightarrow> pyval \<Rightarrow> pyval \<Rightarrow> pyval \<Rightarrow> pyval \<Rightarrow> pyval \<Rightarrow> pyval \<Rightarrow> pyval \<Rightarrow> pyval
     \<Rightarrow> (exn + pyval) \<times> publish list" where
  "dp_body env rabbitmq_url queue_name blob_metadata_id0 tenant_id0 user_id0 status0
       processed_markdown0 error_message0 =
     (case strip_or_none blob_metadata_id0 of Inl e \<Rightarrow> (Inl e, []) | Inr blob_metadata_id \<Rightarrow>
     (case strip_or_none tenant_id0 of Inl e \<Rightarrow> (Inl e, []) | Inr tenant_id \<Rightarrow>
     (case strip_or_none user_id0 of Inl e \<Rightarrow> (Inl e, []) | Inr user_id \<Rightarrow>
     (case strip_or_none status0 of Inl e \<Rightarrow> (Inl e, []) | Inr status \<Rightarrow>
     (case strip_or_none processed_markdown0 of Inl e \<Rightarrow> (Inl e, []) | Inr processed_markdown \<Rightarrow>
     (case strip_or_none error_message0 of Inl e \<Rightarrow> (Inl e, []) | Inr error_message \<Rightarrow>
     (case validate_rabbitmq_url rabbitmq_url queue_name of
        Inl e \<Rightarrow> (Inl e, [])
      | Inr (Some m) \<Rightarrow> (Inr (validation_failed m), [])
      | Inr None \<Rightarrow>
     (case validate_message blob_metadata_id tenant_id status of
        Some m \<Rightarrow> (Inr (validation_failed m), [])
      | None \<Rightarrow>
          (let message = dp_build_message env blob_metadata_id tenant_id user_id status
                           processed_markdown error_message
           in hand_off env message rabbitmq_url queue_name
                (PDict [(''status'', PStr ''success''), (''blob_metadata_id'', blob_metadata_id),
                        (''processing_status'', status), (''message'', message)]))))))))))"

definition dp_execute ::
  "env \<Rightarrow> pyval \<Rightarrow> pyval \<Rightarrow> pyval \<Rightarrow> pyval \<Rightarrow> pyval \<Rightarrow> pyval \<Rightarrow> pyval \<Rightarrow> pyval
     \<Rightarrow> pyval \<times> publish list" where
  "dp_execute env rabbitmq_url queue_name blob_metadata_id tenant_id user_id status
       processed_markdown error_message =
     catch_all (dp_body env rabbitmq_url queue_name blob_metadata_id tenant_id user_id status
                  processed_markdown error_message)"

section \<open>Notions used in the statements\<close>

text \<open>
  What the body of an \<open>execute\<close> may end in: nothing handed off and an exception or an
  error result; or one hand-off to the given URL and queue, with the exception that the
  hand-off raised, or with a success result carrying the message handed off.
\<close>

definition well_reported :: "env \<Rightarrow> pyval \<Rightarrow> pyval \<Rightarrow> (exn + pyval) \<times> publish list \<Rightarrow> bool" where
  "well_reported env url queue b =
     (case snd b of
        [] \<Rightarrow> (case fst b of Inl e \<Rightarrow> True | Inr v \<Rightarrow> \<exists>m. v = error_result m)
      | [p] \<Rightarrow> p = (fst p, url, queue)
               \<and> (case fst b of
                    Inl e \<Rightarrow> broker env (fst p) url queue = Some e
                  | Inr v \<Rightarrow> broker env (fst p) url queue = None
                            \<and> field v ''status'' = Some (PStr ''success'')
                            \<and> field v ''message'' = Some (fst p))
      | _ \<Rightarrow> False)"


text \<open>
  Environments for the worked examples: a parser that knows two documents, a broker that
  accepts every message, and the same with a broker that refuses the connection.
\<close>

definition sample_env :: env where
  "sample_env = \<lparr>json_loads = (\<lambda>s. if s = ''[]'' then Inr (PList [])
                                  else if s = ''{}'' then Inr (PDict [])
                                  else Inl ''Expecting value''),
                 pika_import = None, broker = (\<lambda>m u q. None),
                 utcnow = ''2025-01-01T00:00:00+00:00'', int_max_str_digits = 4300\<rparr>"

definition broker_down_env :: env where
  "broker_down_env = sample_env\<lparr>broker := (\<lambda>m u q. Some (OtherError ''connection refused''))\<rparr>"

text \<open>
  What it means that a message \<open>m\<close> went through an activity's validation and assembly:
  the normalised arguments exist, every validator accepted them, and \<open>m\<close> is what the
  assembly made of them.
\<close>

definition cm_passed ::
  "env \<Rightarrow> pyval \<Rightarrow> pyval \<Rightarrow> pyval \<Rightarrow> pyval \<Rightarrow> pyval \<Rightarrow> pyval \<Rightarrow> pyval \<Rightarrow> pyval
     \<Rightarrow> pyval \<Rightarrow> pyval \<Rightarrow> pyval \<Rightarrow> pyval \<Rightarrow> pyval \<Rightarrow> pyval \<Rightarrow> bool" where
  "cm_passed env url queue tc rc rt so ta rg te mi ci tu cv m =
     (validate_response_group_id (or_none rg) = None
      \<and> validate_rabbitmq_url url queue = Inr None
      \<and> validate_parameters env te mi ci (or_none so) (or_none ta) = None
      \<and> has_content (py_or tc (PStr [])) (or_none rc) (or_none so) (or_none ta) = Inr True
      \<and> cm_build_message env (py_or tc (PStr [])) (or_none rc) (or_none rt) (or_none so)
           (or_none ta) (or_none rg) te mi ci (convert_turn_complete tu) (or_none cv) = Inr m)"

definition ds_passed ::
  "env \<Rightarrow> pyval \<Rightarrow> pyval \<Rightarrow> pyval \<Rightarrow> pyval \<Rightarrow> pyval \<Rightarrow> pyval \<Rightarrow> pyval \<Rightarrow> pyval
     \<Rightarrow> pyval \<Rightarrow> pyval \<Rightarrow> pyval \<Rightarrow> bool" where
  "ds_passed env url queue mt0 co0 te0 st0 em0 dp0 vo0 ve0 m =
     (\<exists>mt co te st em ve dp.
        strip_or_none mt0 = Inr mt \<and> strip_or_none co0 = Inr co \<and> strip_or_none te0 = Inr te
        \<and> strip_or_none st0 = Inr st \<and> strip_or_none em0 = Inr em
        \<and> strip_or_none ve0 = Inr ve \<and> convert_documents_processed env dp0 = Inr dp
        \<and> validate_rabbitmq_url url queue = Inr None
        \<and> ((mt = PStr ''sync'' \<and> validate_sync_message env co te st em dp = None
               \<and> ds_sync_branch env co te st em dp = Inr m)
            \<or> (mt = PStr ''verification''
               \<and> validate_verification_message env co te (auto_status st ve) (or_none vo0) ve = None
               \<and> ds_verification_branch env co te st (or_none vo0) ve = Inr (Inr m))))"

definition dp_passed ::
  "env \<Rightarrow> pyval \<Rightarrow> pyval \<Rightarrow> pyval \<Rightarrow> pyval \<Rightarrow> pyval \<Rightarrow> pyval \<Rightarrow> pyval \<Rightarrow> pyval
     \<Rightarrow> pyval \<Rightarrow> bool" where
  "dp_passed env url queue bm0 te0 us0 st0 pm0 em0 m =
     (\<exists>bm te us st pm em.
        strip_or_none bm0 = Inr bm \<and> strip_or_none te0 = Inr te \<and> strip_or_none us0 = Inr us
        \<and> strip_or_none st0 = Inr st \<and> strip_or_none pm0 = Inr pm
        \<and> strip_or_none em0 = Inr em
        \<and> validate_rabbitmq_url url queue = Inr None
        \<and> validate_message bm te st = None
        \<and> m = dp_build_message env bm te us st pm em)"

text \<open>
  The discipline of the hand-off: a success result after one accepted hand-off of a
  validated message; or an error result and no hand-off; or an error result after one
  hand-off of a validated message that \<open>send_to_rabbitmq\<close> answered with an exception.
\<close>

definition hand_off_discipline ::
  "env \<Rightarrow> pyval \<Rightarrow> pyval \<Rightarrow> (pyval \<Rightarrow> bool) \<Rightarrow> pyval \<times> publish list \<Rightarrow> bool" where
  "hand_off_discipline env url queue passed r =
     ((field (fst r) ''status'' = Some (PStr ''success'')
         \<and> (\<exists>m. snd r = [(m, url, queue)] \<and> passed m \<and> broker env m url queue = None
                 \<and> field (fst r) ''message'' = Some m))
      \<or> (field (fst r) ''status'' = Some (PStr ''error'') \<and> snd r = [])
      \<or> (field (fst r) ''status'' = Some (PStr ''error'')
         \<and> (\<exists>m e. snd r = [(m, url, queue)] \<and> passed m \<and> broker env m url queue = Some e
                   \<and> fst r = error_result (exn_str e))))"

text \<open>
  Two pieces of \<open>cm_build_message\<close> under names of their own: the entry that a parsed
  argument adds to the metadata, and the end of the assembly from \<open>turn_complete\<close> on.
\<close>

definition put_loaded ::
  "env \<Rightarrow> (string \<times> pyval) list \<Rightarrow> string \<Rightarrow> pyval \<Rightarrow> exn + (string \<times> pyval) list" where
  "put_loaded env d k v =
     (if truthy v
      then (case loads_if_str env v of Inl e \<Rightarrow> Inl e | Inr x \<Rightarrow> Inr (dict_set d k x))
      else Inr d)"

definition cm_finish ::
  "(string \<times> pyval) list \<Rightarrow> pyval \<Rightarrow> pyval \<Rightarrow> pyval \<Rightarrow> pyval \<Rightarrow> pyval \<Rightarrow> pyval \<Rightarrow> pyval
     \<Rightarrow> (string \<times> pyval) list" where
  "cm_finish metadata3 response_group_id tenant_id message_id conversation_id text_content
       turn_complete citation_variant =
     (let metadata4 = (if turn_complete \<noteq> PNone
                       then dict_set metadata3 ''turn_complete'' turn_complete
                       else metadata3);
          metadata = (if citation_variant \<noteq> PNone
                      then dict_set metadata4 ''citation_variant'' citation_variant
                      else metadata4);
          message1 = (if metadata \<noteq> []
                      then dict_set [(''message_id'', message_id),
                             (''conversation_id'', conversation_id),
                             (''tenant_id'', tenant_id), (''response'', text_content)]
                             ''metadata'' (PDict metadata)
                      else [(''message_id'', message_id), (''conversation_id'', conversation_id),
                            (''tenant_id'', tenant_id), (''response'', text_content)]);
          message2 = (if truthy response_group_id
                      then dict_set message1 ''response_group_id'' response_group_id
                      else message1)
      in message2)"

text \<open>
  An argument is supplied when it is truthy; \<open>turn_complete\<close> is supplied when it is
  neither \<open>None\<close> nor the empty string (\<open>False\<close> and \<open>0\<close> count as supplied). A text is
  blank when it is empty or only white space. \<open>metadata_keys\<close> lists the keys that the
  supplied arguments put into the metadata.
\<close>

definition turn_complete_given :: "pyval \<Rightarrow> bool" where
  "turn_complete_given v = (v \<noteq> PNone \<and> v \<noteq> PStr [])"

definition blank_text :: "pyval \<Rightarrow> bool" where
  "blank_text v = (case v of PStr s \<Rightarrow> py_strip s = [] | _ \<Rightarrow> \<not> truthy v)"

definition metadata_keys :: "pyval \<Rightarrow> pyval \<Rightarrow> pyval \<Rightarrow> pyval \<Rightarrow> pyval \<Rightarrow> string list" where
  "metadata_keys rc so ta tu cv =
     (if truthy rc then [''reasoning''] else [])
     @ (if truthy so then [''sources''] else [])
     @ (if truthy ta then [''tasks''] else [])
     @ (if turn_complete_given tu then [''turn_complete''] else [])
     @ (if truthy cv then [''citation_variant''] else [])"

text \<open>The text of the refusal of a call without content.\<close>

definition content_required :: string where
  "content_required =
     ''at least one of text_content, reasoning_content, sources, or tasks is required''"

text \<open>
  The value that \<open>v.strip() if v else None\<close> leaves for an argument, when it raises nothing;
  an argument is non-blank when it is a string with more than white space in it, and of
  the declared type when it is a string or \<open>None\<close>.
\<close>

definition stripped :: "pyval \<Rightarrow> pyval" where
  "stripped v = (if truthy v then (case v of PStr s \<Rightarrow> PStr (py_strip s) | _ \<Rightarrow> PNone) else PNone)"

definition nonblank :: "pyval \<Rightarrow> bool" where
  "nonblank v = (case v of PStr s \<Rightarrow> py_strip s \<noteq> [] | _ \<Rightarrow> False)"


text \<open>
  A message without its \<open>timestamp\<close>, a result whose message lost it, and the outcome of an
  \<open>execute\<close> (result and hand-offs) with every timestamp erased.
\<close>

definition without_timestamp :: "pyval \<Rightarrow> pyval" where
  "without_timestamp m =
     (case m of PDict d \<Rightarrow> PDict (filter (\<lambda>kv. fst kv \<noteq> ''timestamp'') d) | _ \<Rightarrow> m)"

definition erase_result :: "pyval \<Rightarrow> pyval" where
  "erase_result r =
     (case r of
        PDict d \<Rightarrow> PDict (map (\<lambda>kv. if fst kv = ''message''
                                     then (fst kv, without_timestamp (snd kv)) else kv) d)
      | _ \<Rightarrow> r)"

definition erase_clock :: "pyval \<times> publish list \<Rightarrow> pyval \<times> publish list" where
  "erase_clock r = (erase_result (fst r), map (\<lambda>p. (without_timestamp (fst p), snd p)) (snd r))"

text \<open>The part of \<open>ds_body\<close> that follows the normalisation of the arguments.\<close>

definition ds_dispatch ::
  "env \<Rightarrow> pyval \<Rightarrow> pyval \<Rightarrow> pyval \<Rightarrow> pyval \<Rightarrow> pyval \<Rightarrow> pyval \<Rightarrow> pyval \<Rightarrow> pyval
     \<Rightarrow> pyval \<Rightarrow> pyval \<Rightarrow> (exn + pyval) \<times> publish list" where
  "ds_dispatch env rabbitmq_url queue_name message_type connection_id tenant_id status
       error_message documents_processed verification_options verification_error =
        (case validate_rabbitmq_url rabbitmq_url queue_name of
           Inl e \<Rightarrow> (Inl e, [])
         | Inr (Some m) \<Rightarrow> (Inr (validation_failed m), [])
         | Inr None \<Rightarrow>
             if \<not> truthy message_type
                \<or> message_type \<notin> set [PStr ''sync'', PStr ''verification'']
             then (Inr (error_result (''message_type must be '' @ sq @ ''sync'' @ sq @ '' or ''
                                       @ sq @ ''verification'' @ sq)), [])
             else
               (case (if message_type = PStr ''sync''
                      then Inr (ds_sync_branch env connection_id tenant_id status error_message
                                  documents_processed)
                      else if message_type = PStr ''verification''
                      then ds_verification_branch env connection_id tenant_id status
                             verification_options verification_error
                      else Inr (Inr (PDict []))) of
                  Inl e \<Rightarrow> (Inl e, [])
                | Inr (Inl r) \<Rightarrow> (Inr r, [])
                | Inr (Inr message) \<Rightarrow>
                    hand_off env message rabbitmq_url queue_name
                      (PDict [(''status'', PStr ''success''), (''message_type'', message_type),
                              (''connection_id'', connection_id), (''message'', message)])))"

text \<open>The sample environment one second later.\<close>

definition later_env :: env where
  "later_env = sample_env\<lparr>utcnow := ''2025-01-01T00:00:01+00:00''\<rparr>"

section \<open>Results and hand-offs\<close>

lemma field_error_result:
  "field (error_result m) ''status'' = Some (PStr ''error'')"
  "field (error_result m) ''error'' = Some (PStr m)"
  by (simp_all add: field_def error_result_def)

lemma well_reported_simps:
  "well_reported env url queue (Inl e, [])"
  "well_reported env url queue (Inr (error_result m), [])"
  "well_reported env url queue (Inr (validation_failed m), [])"
  by (auto simp: well_reported_def validation_failed_def)

lemma hand_off_reported:
  "field s ''status'' = Some (PStr ''success'') \<Longrightarrow> field s ''message'' = Some m
   \<Longrightarrow> well_reported env url queue (hand_off env m url queue s)"
  by (simp add: well_reported_def hand_off_def split: option.split)

lemma cm_reported:
  "well_reported env url queue (cm_body env url queue tc rc rt so ta rg te mi ci tu cv)"
  unfolding cm_body_def Let_def
  by (simp add: well_reported_simps split: option.split sum.split bool.split)
     (simp add: well_reported_def field_def)

lemma dp_reported:
  "well_reported env url queue (dp_body env url queue bm0 te0 us0 st0 pm0 em0)"
  unfolding dp_body_def Let_def
  by (simp add: well_reported_simps hand_off_reported field_def split: option.split sum.split)

lemma convert_documents_processed_Inl:
  "convert_documents_processed env dp0 = Inl r \<Longrightarrow> well_reported env url queue (Inr r, [])"
  by (auto simp: convert_documents_processed_def well_reported_simps split: if_splits sum.splits)

lemma ds_sync_branch_Inl:
  "ds_sync_branch env co te st em dp = Inl r \<Longrightarrow> well_reported env url queue (Inr r, [])"
  by (auto simp: ds_sync_branch_def Let_def well_reported_simps split: option.splits)

lemma ds_verification_branch_Inl:
  "ds_verification_branch env co te st vo ve = Inr (Inl r)
   \<Longrightarrow> well_reported env url queue (Inr r, [])"
  by (auto simp: ds_verification_branch_def Let_def well_reported_simps
           split: option.splits sum.splits if_splits)

lemma ds_reported:
  "well_reported env url queue (ds_body env url queue mt0 co0 te0 st0 em0 dp0 vo0 ve0)"
  unfolding ds_body_def Let_def
  by (simp add: well_reported_simps hand_off_reported field_def convert_documents_processed_Inl
        ds_sync_branch_Inl ds_verification_branch_Inl split: option.split sum.split)


text \<open>A call of the complete-message activity while the broker refuses connections.\<close>

lemma cm_broker_down_run:
  "cm_execute broker_down_env (PStr ''amqp://h'') (PStr ''q'') (PStr ''hi'') PNone PNone PNone
     PNone PNone (PStr ''t'') (PStr ''m'') (PStr ''c'') PNone PNone
   = (error_result ''connection refused'',
      [(PDict [(''message_id'', PStr ''m''), (''conversation_id'', PStr ''c''),
               (''tenant_id'', PStr ''t''), (''response'', PStr ''hi'')],
        PStr ''amqp://h'', PStr ''q'')])"
  by code_simp

section \<open>The shape of every result\<close>



section \<open>One hand-off at most\<close>

lemma catch_all_discipline:
  assumes "well_reported env url queue b" and "\<And>p ps. snd b = p # ps \<Longrightarrow> passed (fst p)"
  shows "hand_off_discipline env url queue passed (catch_all b)"
proof (cases "snd b")
  case Nil
  with assms(1) show ?thesis
    by (cases "fst b")
       (auto simp: well_reported_def catch_all_def hand_off_discipline_def field_error_result)
next
  case (Cons p ps)
  with assms(2) have "passed (fst p)" by simp
  with Cons assms(1) show ?thesis
    by (cases "fst b"; cases ps)
       (auto simp: well_reported_def catch_all_def hand_off_discipline_def field_error_result)
qed

lemma cm_validated:
  "snd (cm_body env url queue tc rc rt so ta rg te mi ci tu cv) = p # ps
   \<Longrightarrow> cm_passed env url queue tc rc rt so ta rg te mi ci tu cv (fst p)"
  unfolding cm_body_def Let_def cm_passed_def
  by (auto split: option.splits sum.splits bool.splits)

lemma dp_validated:
  "snd (dp_body env url queue bm0 te0 us0 st0 pm0 em0) = p # ps
   \<Longrightarrow> dp_passed env url queue bm0 te0 us0 st0 pm0 em0 (fst p)"
  unfolding dp_body_def Let_def dp_passed_def hand_off_def
  by (auto split: option.splits sum.splits)


lemma ds_sync_branch_Inr:
  "ds_sync_branch env co te st em dp = Inr m \<Longrightarrow> validate_sync_message env co te st em dp = None"
  by (auto simp: ds_sync_branch_def split: option.splits)

lemma ds_verification_branch_Inr:
  "ds_verification_branch env co te st vo ve = Inr (Inr m)
   \<Longrightarrow> validate_verification_message env co te (auto_status st ve) vo ve = None"
  by (auto simp: ds_verification_branch_def Let_def split: option.splits)

lemma ds_validated:
  "snd (ds_body env url queue mt0 co0 te0 st0 em0 dp0 vo0 ve0) = p # ps
   \<Longrightarrow> ds_passed env url queue mt0 co0 te0 st0 em0 dp0 vo0 ve0 (fst p)"
  unfolding ds_body_def Let_def ds_passed_def hand_off_def
  by (auto split: option.splits sum.splits if_splits
           dest: ds_sync_branch_Inr ds_verification_branch_Inr)

text \<open>
  Claim C1, as stated, fails: with a broker that refuses the connection the
  complete-message activity returns status \<open>error\<close> although \<open>send_to_rabbitmq\<close> was
  invoked.
\<close>

theorem error_after_hand_off_counterexample:
  "field (fst (cm_execute broker_down_env (PStr ''amqp://h'') (PStr ''q'') (PStr ''hi'') PNone
                 PNone PNone PNone PNone (PStr ''t'') (PStr ''m'') (PStr ''c'') PNone PNone))
         ''status'' = Some (PStr ''error'')
   \<and> length (snd (cm_execute broker_down_env (PStr ''amqp://h'') (PStr ''q'') (PStr ''hi'') PNone
                 PNone PNone PNone PNone (PStr ''t'') (PStr ''m'') (PStr ''c'') PNone PNone)) = 1"
  by (simp add: cm_broker_down_run field_error_result)

text \<open>
  Claim C1, amended. Each of the three \<open>execute\<close> operations hands off at most once. The
  status is \<open>success\<close> only after exactly one hand-off that returned, of a message that
  passed every validation before it was assembled, and the result carries that message.
  The status is \<open>error\<close> either with no hand-off at all (a failed validation, or an
  exception before the hand-off) or after exactly one hand-off that raised, whose
  exception text is the error reported.
\<close>

theorem execute_hand_off_discipline:
  "hand_off_discipline env url queue (cm_passed env url queue tc rc rt so ta rg te mi ci tu cv)
     (cm_execute env url queue tc rc rt so ta rg te mi ci tu cv)
   \<and> hand_off_discipline env url' queue' (ds_passed env url' queue' mt co te' st em dp vo ve)
       (ds_execute env url' queue' mt co te' st em dp vo ve)
   \<and> hand_off_discipline env url'' queue'' (dp_passed env url'' queue'' bm te'' us st' pm em')
       (dp_execute env url'' queue'' bm te'' us st' pm em')"
  unfolding cm_execute_def ds_execute_def dp_execute_def
  by (intro conjI catch_all_discipline cm_reported ds_reported dp_reported)
     (erule cm_validated ds_validated dp_validated)+

theorem execute_hand_off_discipline_witness:
  "cm_passed broker_down_env (PStr ''amqp://h'') (PStr ''q'') (PStr ''hi'') PNone PNone PNone
     PNone PNone (PStr ''t'') (PStr ''m'') (PStr ''c'') PNone PNone
     (PDict [(''message_id'', PStr ''m''), (''conversation_id'', PStr ''c''),
             (''tenant_id'', PStr ''t''), (''response'', PStr ''hi'')])"
  using execute_hand_off_discipline [of broker_down_env "PStr ''amqp://h''" "PStr ''q''"
      "PStr ''hi''" PNone PNone PNone PNone PNone "PStr ''t''" "PStr ''m''" "PStr ''c''" PNone PNone]
  by (auto simp: hand_off_discipline_def cm_broker_down_run field_error_result)

section \<open>The keys of a complete message\<close>

lemma truthy_or_none [simp]: "truthy (or_none v) = truthy v"
  by (simp add: or_none_def)

lemma or_none_eq_PNone [simp]: "(or_none v = PNone) = (\<not> truthy v)"
  by (cases v) (auto simp: or_none_def)

lemma convert_turn_complete_eq_PNone [simp]:
  "(convert_turn_complete tu = PNone) = (tu = PNone \<or> tu = PStr [])"
  by (cases tu) (auto simp: convert_turn_complete_def)

lemma keys_dict_set:
  "map fst (dict_set d k v) = (if k \<in> set (map fst d) then map fst d else map fst d @ [k])"
  by (induction d) (auto; force)+

lemma dict_set_not_Nil [simp]: "dict_set d k v \<noteq> []"
  by (cases d) (auto split: if_splits)

lemma put_loaded_keys:
  "put_loaded env d k v = Inr d'
   \<Longrightarrow> map fst d' = (if truthy v \<and> k \<notin> set (map fst d) then map fst d @ [k] else map fst d)"
  by (auto simp: put_loaded_def keys_dict_set split: if_splits sum.splits; force)

lemma cm_discipline:
  "hand_off_discipline env url queue (cm_passed env url queue tc rc rt so ta rg te mi ci tu cv)
     (cm_execute env url queue tc rc rt so ta rg te mi ci tu cv)"
  unfolding cm_execute_def
  by (rule catch_all_discipline) (rule cm_reported, erule cm_validated)

lemma cm_build_message_alt:
  "cm_build_message env tc rc rt so ta rg te mi ci tu cv =
     (case put_loaded env
             (if truthy rc
              then dict_set [] ''reasoning''
                     (PDict (if truthy rt
                             then dict_set [(''content'', rc), (''state'', PStr ''done'')] ''title'' rt
                             else [(''content'', rc), (''state'', PStr ''done'')]))
              else []) ''sources'' so of
        Inl e \<Rightarrow> Inl e
      | Inr md2 \<Rightarrow>
          (case put_loaded env md2 ''tasks'' ta of
             Inl e \<Rightarrow> Inl e
           | Inr md3 \<Rightarrow>
               Inr (PDict (cm_finish md3 rg te mi ci tc tu cv))))"
  by (simp only: cm_build_message_def put_loaded_def Let_def cm_finish_def)

lemma base_message_metadata:
  "dict_set [(''message_id'', mi), (''conversation_id'', ci), (''tenant_id'', te),
             (''response'', tc)] ''metadata'' v
   = [(''message_id'', mi), (''conversation_id'', ci), (''tenant_id'', te), (''response'', tc),
      (''metadata'', v)]"
  by simp

lemma base_message_group:
  "dict_set [(''message_id'', mi), (''conversation_id'', ci), (''tenant_id'', te),
             (''response'', tc)] ''response_group_id'' v
   = [(''message_id'', mi), (''conversation_id'', ci), (''tenant_id'', te), (''response'', tc),
      (''response_group_id'', v)]"
  "dict_set [(''message_id'', mi), (''conversation_id'', ci), (''tenant_id'', te),
             (''response'', tc), (''metadata'', w)] ''response_group_id'' v
   = [(''message_id'', mi), (''conversation_id'', ci), (''tenant_id'', te), (''response'', tc),
      (''metadata'', w), (''response_group_id'', v)]"
  by simp_all

lemma cm_build_message_shape:
  assumes "cm_build_message env tc rc rt so ta rg te mi ci tu cv = Inr m"
  shows "\<exists>md. map fst md = (if truthy rc then [''reasoning''] else [])
                 @ (if truthy so then [''sources''] else [])
                 @ (if truthy ta then [''tasks''] else [])
                 @ (if tu \<noteq> PNone then [''turn_complete''] else [])
                 @ (if cv \<noteq> PNone then [''citation_variant''] else [])
              \<and> m = PDict ([(''message_id'', mi), (''conversation_id'', ci),
                            (''tenant_id'', te), (''response'', tc)]
                           @ (if md \<noteq> [] then [(''metadata'', PDict md)] else [])
                           @ (if truthy rg then [(''response_group_id'', rg)] else []))"
proof -
  let ?md1 = "if truthy rc
              then dict_set [] ''reasoning''
                     (PDict (if truthy rt
                             then dict_set [(''content'', rc), (''state'', PStr ''done'')] ''title'' rt
                             else [(''content'', rc), (''state'', PStr ''done'')]))
              else []"
  from assms obtain md2 md3 where
    a: "put_loaded env ?md1 ''sources'' so = Inr md2" and
    b: "put_loaded env md2 ''tasks'' ta = Inr md3" and
    c: "m = PDict (cm_finish md3 rg te mi ci tc tu cv)"
    unfolding cm_build_message_alt by (auto split: sum.splits)
  have k1: "map fst ?md1 = (if truthy rc then [''reasoning''] else [])"
    by simp
  have k2: "map fst md2 = (if truthy rc then [''reasoning''] else [])
                          @ (if truthy so then [''sources''] else [])"
    using put_loaded_keys [OF a] unfolding k1 by simp
  have k3: "map fst md3 = (if truthy rc then [''reasoning''] else [])
                          @ (if truthy so then [''sources''] else [])
                          @ (if truthy ta then [''tasks''] else [])"
    using put_loaded_keys [OF b] unfolding k2 by simp
  define md4 where "md4 = (if tu \<noteq> PNone then dict_set md3 ''turn_complete'' tu else md3)"
  define md where "md = (if cv \<noteq> PNone then dict_set md4 ''citation_variant'' cv else md4)"
  have k4: "map fst md4 = map fst md3 @ (if tu \<noteq> PNone then [''turn_complete''] else [])"
    by (simp add: md4_def keys_dict_set k3)
  have k5: "map fst md = map fst md4 @ (if cv \<noteq> PNone then [''citation_variant''] else [])"
    by (simp add: md_def keys_dict_set k4 k3)
  have "m = PDict ([(''message_id'', mi), (''conversation_id'', ci),
                            (''tenant_id'', te), (''response'', tc)]
                           @ (if md \<noteq> [] then [(''metadata'', PDict md)] else [])
                           @ (if truthy rg then [(''response_group_id'', rg)] else []))"
    unfolding c cm_finish_def Let_def md4_def [symmetric] md_def [symmetric]
    by (simp only: base_message_metadata base_message_group append.simps if_distrib
          split: if_split) simp
  moreover have "map fst md = (if truthy rc then [''reasoning''] else [])
                 @ (if truthy so then [''sources''] else [])
                 @ (if truthy ta then [''tasks''] else [])
                 @ (if tu \<noteq> PNone then [''turn_complete''] else [])
                 @ (if cv \<noteq> PNone then [''citation_variant''] else [])"
    unfolding k5 k4 k3 by simp
  ultimately show ?thesis by blast
qed


lemma cm_sample_run:
  "cm_execute sample_env (PStr ''amqp://h'') (PStr ''q'') (PStr ''hi'') PNone PNone PNone PNone
     (PStr ''123E4567-e89b-42d3-a456-426614174000'') (PStr ''t'') (PStr ''m'') (PStr ''c'')
     (PStr ''Yes'') PNone
   = (PDict [(''status'', PStr ''success''), (''message_id'', PStr ''m''),
             (''message'',
              PDict [(''message_id'', PStr ''m''), (''conversation_id'', PStr ''c''),
                     (''tenant_id'', PStr ''t''), (''response'', PStr ''hi''),
                     (''metadata'', PDict [(''turn_complete'', PBool True)]),
                     (''response_group_id'', PStr ''123E4567-e89b-42d3-a456-426614174000'')])],
      [(PDict [(''message_id'', PStr ''m''), (''conversation_id'', PStr ''c''),
               (''tenant_id'', PStr ''t''), (''response'', PStr ''hi''),
               (''metadata'', PDict [(''turn_complete'', PBool True)]),
               (''response_group_id'', PStr ''123E4567-e89b-42d3-a456-426614174000'')],
        PStr ''amqp://h'', PStr ''q'')])"
  by code_simp

text \<open>
  Claim C3. When the complete-message activity returns \<open>success\<close>, it handed off one
  message whose keys are exactly \<open>message_id\<close>, \<open>conversation_id\<close>, \<open>tenant_id\<close> and
  \<open>response\<close>, then \<open>metadata\<close> if and only if one of \<open>reasoning_content\<close>, \<open>sources\<close>,
  \<open>tasks\<close>, \<open>turn_complete\<close>, \<open>citation_variant\<close> was supplied, then \<open>response_group_id\<close>
  if and only if that was supplied; the metadata has exactly the keys of the supplied
  arguments among \<open>reasoning\<close>, \<open>sources\<close>, \<open>tasks\<close>, \<open>turn_complete\<close>, \<open>citation_variant\<close>.
\<close>

theorem cm_published_keys:
  assumes "field (fst (cm_execute env url queue tc rc rt so ta rg te mi ci tu cv)) ''status''
           = Some (PStr ''success'')"
  shows "\<exists>m. snd (cm_execute env url queue tc rc rt so ta rg te mi ci tu cv) = [(m, url, queue)]
           \<and> keys m = [''message_id'', ''conversation_id'', ''tenant_id'', ''response'']
                @ (if truthy rc \<or> truthy so \<or> truthy ta \<or> turn_complete_given tu \<or> truthy cv
                   then [''metadata''] else [])
                @ (if truthy rg then [''response_group_id''] else [])
           \<and> (truthy rc \<or> truthy so \<or> truthy ta \<or> turn_complete_given tu \<or> truthy cv
                \<longrightarrow> (\<exists>md. field m ''metadata'' = Some md
                          \<and> keys md = metadata_keys rc so ta tu cv))"
proof -
  from cm_discipline [of env url queue tc rc rt so ta rg te mi ci tu cv] assms
  obtain m where
    log: "snd (cm_execute env url queue tc rc rt so ta rg te mi ci tu cv) = [(m, url, queue)]" and
    "cm_passed env url queue tc rc rt so ta rg te mi ci tu cv m"
    by (auto simp: hand_off_discipline_def)
  then have "cm_build_message env (py_or tc (PStr [])) (or_none rc) (or_none rt) (or_none so)
           (or_none ta) (or_none rg) te mi ci (convert_turn_complete tu) (or_none cv) = Inr m"
    by (simp add: cm_passed_def)
  from cm_build_message_shape [OF this] obtain md where
    md: "map fst md = metadata_keys rc so ta tu cv" and
    m: "m = PDict ([(''message_id'', mi), (''conversation_id'', ci),
                            (''tenant_id'', te), (''response'', py_or tc (PStr []))]
                           @ (if md \<noteq> [] then [(''metadata'', PDict md)] else [])
                           @ (if truthy rg then [(''response_group_id'', or_none rg)] else []))"
    by (auto simp: metadata_keys_def turn_complete_given_def)
  have ne: "md \<noteq> [] \<longleftrightarrow> truthy rc \<or> truthy so \<or> truthy ta \<or> turn_complete_given tu \<or> truthy cv"
    using md by (auto simp: metadata_keys_def split: if_splits)
  show ?thesis
    using log md ne unfolding m by (auto simp: keys_def field_def)
qed

theorem cm_published_keys_witness:
  "\<exists>m. snd (cm_execute sample_env (PStr ''amqp://h'') (PStr ''q'') (PStr ''hi'') PNone PNone
              PNone PNone (PStr ''123E4567-e89b-42d3-a456-426614174000'') (PStr ''t'')
              (PStr ''m'') (PStr ''c'') (PStr ''Yes'') PNone)
         = [(m, PStr ''amqp://h'', PStr ''q'')]
       \<and> keys m = [''message_id'', ''conversation_id'', ''tenant_id'', ''response'',
                   ''metadata'', ''response_group_id'']
       \<and> (\<exists>md. field m ''metadata'' = Some md \<and> keys md = [''turn_complete''])"
proof -
  have "field (fst (cm_execute sample_env (PStr ''amqp://h'') (PStr ''q'') (PStr ''hi'') PNone
              PNone PNone PNone (PStr ''123E4567-e89b-42d3-a456-426614174000'') (PStr ''t'')
              (PStr ''m'') (PStr ''c'') (PStr ''Yes'') PNone)) ''status''
        = Some (PStr ''success'')"
    by (simp add: cm_sample_run field_def)
  from cm_published_keys [OF this] show ?thesis
    by (simp add: metadata_keys_def turn_complete_given_def)
qed

section \<open>A call without content\<close>

lemma py_strip_Nil [simp]: "py_strip [] = []"
  by (simp add: py_strip_def strip_chars_def)

lemma has_content_blank:
  "blank_text tc \<Longrightarrow> \<not> truthy rc \<Longrightarrow> \<not> truthy so \<Longrightarrow> \<not> truthy ta
   \<Longrightarrow> has_content (py_or tc (PStr [])) (or_none rc) (or_none so) (or_none ta) = Inr False"
  by (cases tc) (auto simp: has_content_def py_or_def blank_text_def)

lemma cm_blank_no_hand_off:
  assumes "blank_text tc" "\<not> truthy rc" "\<not> truthy so" "\<not> truthy ta"
  shows "snd (cm_body env url queue tc rc rt so ta rg te mi ci tu cv) = []"
  unfolding cm_body_def Let_def
  by (simp add: has_content_blank [OF assms] split: option.split sum.split)

lemma cm_blank_content_error:
  assumes "blank_text tc" "\<not> truthy rc" "\<not> truthy so" "\<not> truthy ta"
    and "validate_response_group_id (or_none rg) = None"
    and "validate_rabbitmq_url url queue = Inr None"
    and "validate_parameters env te mi ci (or_none so) (or_none ta) = None"
  shows "cm_body env url queue tc rc rt so ta rg te mi ci tu cv
         = (Inr (validation_failed content_required), [])"
  unfolding cm_body_def Let_def content_required_def
  by (simp add: has_content_blank [OF assms(1-4)] assms(5-7))

lemma cm_blank_url_run:
  "cm_execute sample_env (PStr []) (PStr ''q'') (PStr '' '') PNone PNone PNone PNone PNone
     (PStr ''t'') (PStr ''m'') (PStr ''c'') PNone PNone
   = (validation_failed ''rabbitmq_url is required'', [])"
  by code_simp

lemma cm_blank_run:
  "cm_execute sample_env (PStr ''amqp://h'') (PStr ''q'') (PStr '' '') PNone PNone PNone PNone
     PNone (PStr ''t'') (PStr ''m'') (PStr ''c'') PNone PNone
   = (validation_failed content_required, [])"
  by code_simp

text \<open>
  Claim C10, as stated, fails: the check for content comes after the checks of
  \<open>response_group_id\<close>, of the URL and queue and of the identifiers. With valid
  identifiers, a blank text, nothing else supplied and an empty \<open>rabbitmq_url\<close>, the error
  returned is the one about the URL, not the one about content.
\<close>

theorem blank_content_counterexample:
  "blank_text (PStr '' '')
   \<and> fst (cm_execute sample_env (PStr []) (PStr ''q'') (PStr '' '') PNone PNone PNone PNone
             PNone (PStr ''t'') (PStr ''m'') (PStr ''c'') PNone PNone)
       = validation_failed ''rabbitmq_url is required''
   \<and> validation_failed ''rabbitmq_url is required'' \<noteq> validation_failed content_required"
  by (simp add: cm_blank_url_run) code_simp

text \<open>
  Claim C10, amended. When \<open>text_content\<close> is empty or only white space and none of
  \<open>reasoning_content\<close>, \<open>sources\<close>, \<open>tasks\<close> is supplied, the call returns an error result
  and hands nothing off; when moreover \<open>response_group_id\<close>, the URL and queue and the
  identifiers pass their validation, the error is
  ``Validation failed: at least one of text_content, reasoning_content, sources, or tasks
  is required''.
\<close>

theorem blank_content_refused:
  assumes "blank_text tc" "\<not> truthy rc" "\<not> truthy so" "\<not> truthy ta"
  shows "field (fst (cm_execute env url queue tc rc rt so ta rg te mi ci tu cv)) ''status''
           = Some (PStr ''error'')
         \<and> snd (cm_execute env url queue tc rc rt so ta rg te mi ci tu cv) = []
         \<and> (validate_response_group_id (or_none rg) = None
              \<and> validate_rabbitmq_url url queue = Inr None
              \<and> validate_parameters env te mi ci (or_none so) (or_none ta) = None
            \<longrightarrow> fst (cm_execute env url queue tc rc rt so ta rg te mi ci tu cv)
                  = validation_failed content_required)"
proof -
  have log: "snd (cm_execute env url queue tc rc rt so ta rg te mi ci tu cv) = []"
    using cm_blank_no_hand_off [OF assms] by (simp add: cm_execute_def catch_all_def split: sum.split)
  with cm_discipline [of env url queue tc rc rt so ta rg te mi ci tu cv]
  have "field (fst (cm_execute env url queue tc rc rt so ta rg te mi ci tu cv)) ''status''
           = Some (PStr ''error'')"
    by (auto simp: hand_off_discipline_def)
  moreover have "fst (cm_execute env url queue tc rc rt so ta rg te mi ci tu cv)
                  = validation_failed content_required"
    if "validate_response_group_id (or_none rg) = None"
      "validate_rabbitmq_url url queue = Inr None"
      "validate_parameters env te mi ci (or_none so) (or_none ta) = None"
    using cm_blank_content_error [OF assms that] by (simp add: cm_execute_def catch_all_def)
  ultimately show ?thesis using log by blast
qed

theorem blank_content_refused_witness:
  "fst (cm_execute sample_env (PStr ''amqp://h'') (PStr ''q'') (PStr '' '') PNone PNone PNone
          PNone PNone (PStr ''t'') (PStr ''m'') (PStr ''c'') PNone PNone)
   = validation_failed content_required
   \<and> snd (cm_execute sample_env (PStr ''amqp://h'') (PStr ''q'') (PStr '' '') PNone PNone PNone
          PNone PNone (PStr ''t'') (PStr ''m'') (PStr ''c'') PNone PNone) = []"
proof -
  have b: "blank_text (PStr '' '')" by code_simp
  have v1: "validate_response_group_id (or_none PNone) = None" by code_simp
  have v2: "validate_rabbitmq_url (PStr ''amqp://h'') (PStr ''q'') = Inr None" by code_simp
  have v3: "validate_parameters sample_env (PStr ''t'') (PStr ''m'') (PStr ''c'') (or_none PNone)
              (or_none PNone) = None" by code_simp
  from blank_content_refused [of "PStr '' ''" PNone PNone PNone sample_env "PStr ''amqp://h''"
      "PStr ''q''" PNone PNone "PStr ''t''" "PStr ''m''" "PStr ''c''" PNone PNone, OF b] v1 v2 v3
  show ?thesis by simp
qed

section \<open>The document-processing message\<close>

lemma strip_or_none_Inr:
  "strip_or_none v = Inr x \<Longrightarrow> x = stripped v \<and> truthy x = nonblank v"
  by (cases v) (auto simp: strip_or_none_def stripped_def nonblank_def split: if_splits)


lemma truthy_stripped: "truthy (stripped v) = nonblank v"
  by (cases v) (auto simp: stripped_def nonblank_def)



lemma dp_build_message_eq:
  "dp_build_message env bm te us st pm em =
     PDict ([(''type'', PStr ''document_processing''), (''blob_metadata_id'', bm),
             (''tenant_id'', te), (''status'', st), (''timestamp'', PStr (utcnow env))]
            @ (if truthy us then [(''user_id'', us)] else [])
            @ (if truthy pm then [(''processed_markdown'', pm)] else [])
            @ (if truthy em then [(''error_message'', em)] else []))"
  by (simp add: dp_build_message_def Let_def)






lemma dp_sample_run:
  "dp_execute sample_env (PStr ''amqps://h'') (PStr ''q'') (PStr '' b1 '') (PStr ''t'')
     (PStr '' '') (PStr ''processing_failed'') PNone (PStr ''boom'')
   = (PDict [(''status'', PStr ''success''), (''blob_metadata_id'', PStr ''b1''),
             (''processing_status'', PStr ''processing_failed''),
             (''message'',
              PDict [(''type'', PStr ''document_processing''),
                     (''blob_metadata_id'', PStr ''b1''), (''tenant_id'', PStr ''t''),
                     (''status'', PStr ''processing_failed''),
                     (''timestamp'', PStr ''2025-01-01T00:00:00+00:00''),
                     (''error_message'', PStr ''boom'')])],
      [(PDict [(''type'', PStr ''document_processing''),
               (''blob_metadata_id'', PStr ''b1''), (''tenant_id'', PStr ''t''),
               (''status'', PStr ''processing_failed''),
               (''timestamp'', PStr ''2025-01-01T00:00:00+00:00''),
               (''error_message'', PStr ''boom'')],
        PStr ''amqps://h'', PStr ''q'')])"
  by code_simp


section \<open>The data-source messages\<close>

lemma ds_discipline:
  "hand_off_discipline env url queue (ds_passed env url queue mt co te st em dp vo ve)
     (ds_execute env url queue mt co te st em dp vo ve)"
  unfolding ds_execute_def
  by (rule catch_all_discipline) (rule ds_reported, erule ds_validated)

lemma ds_passed_stripped:
  assumes "ds_passed env url queue mt0 co0 te0 st0 em0 dp0 vo0 ve0 m"
  shows "\<exists>dp. convert_documents_processed env dp0 = Inr dp
           \<and> ((stripped mt0 = PStr ''sync''
                \<and> ds_sync_branch env (stripped co0) (stripped te0) (stripped st0) (stripped em0) dp
                    = Inr m)
              \<or> (stripped mt0 = PStr ''verification''
                \<and> ds_verification_branch env (stripped co0) (stripped te0) (stripped st0)
                     (or_none vo0) (stripped ve0) = Inr (Inr m)))"
  using assms unfolding ds_passed_def
  by (auto dest!: strip_or_none_Inr)

lemma verification_message:
  assumes "ds_verification_branch env co te st vo ve = Inr (Inr m)"
  shows "\<exists>opt. (if truthy vo then loads_if_str env vo = Inr opt else opt = PNone)
           \<and> m = PDict [(''type'', PStr ''verification''), (''connection_id'', co),
                        (''tenant_id'', te), (''status'', auto_status st ve),
                        (''options'', opt), (''error'', if truthy ve then ve else PNone)]"
  using assms unfolding ds_verification_branch_def Let_def
  by (auto split: option.splits sum.splits if_splits)




lemma ds_verification_run:
  "ds_execute sample_env (PStr ''amqp://h'') (PStr ''q'') (PStr ''verification'') (PStr ''c1'')
     (PStr ''t'') (PStr '' '') PNone PNone PNone PNone
   = (PDict [(''status'', PStr ''success''), (''message_type'', PStr ''verification''),
             (''connection_id'', PStr ''c1''),
             (''message'',
              PDict [(''type'', PStr ''verification''), (''connection_id'', PStr ''c1''),
                     (''tenant_id'', PStr ''t''), (''status'', PStr ''success''),
                     (''options'', PNone), (''error'', PNone)])],
      [(PDict [(''type'', PStr ''verification''), (''connection_id'', PStr ''c1''),
               (''tenant_id'', PStr ''t''), (''status'', PStr ''success''),
               (''options'', PNone), (''error'', PNone)],
        PStr ''amqp://h'', PStr ''q'')])"
  by code_simp

lemma ds_verification_failed_run:
  "ds_execute sample_env (PStr ''amqp://h'') (PStr ''q'') (PStr ''verification'') (PStr ''c1'')
     (PStr ''t'') PNone PNone PNone (PStr ''{}'') (PStr ''bad key'')
   = (PDict [(''status'', PStr ''success''), (''message_type'', PStr ''verification''),
             (''connection_id'', PStr ''c1''),
             (''message'',
              PDict [(''type'', PStr ''verification''), (''connection_id'', PStr ''c1''),
                     (''tenant_id'', PStr ''t''), (''status'', PStr ''failed''),
                     (''options'', PDict []), (''error'', PStr ''bad key'')])],
      [(PDict [(''type'', PStr ''verification''), (''connection_id'', PStr ''c1''),
               (''tenant_id'', PStr ''t''), (''status'', PStr ''failed''),
               (''options'', PDict []), (''error'', PStr ''bad key'')],
        PStr ''amqp://h'', PStr ''q'')])"
  by code_simp


text \<open>
  Claim C4, as stated, fails: a verification message always has the keys \<open>options\<close> and
  \<open>error\<close>. Here neither \<open>verification_options\<close> nor \<open>verification_error\<close> is supplied
  and both keys are in the message handed off.
\<close>

theorem verification_keys_counterexample:
  "\<not> truthy PNone
   \<and> keys (fst (hd (snd (ds_execute sample_env (PStr ''amqp://h'') (PStr ''q'')
        (PStr ''verification'') (PStr ''c1'') (PStr ''t'') (PStr '' '') PNone PNone PNone PNone))))
       = [''type'', ''connection_id'', ''tenant_id'', ''status'', ''options'', ''error'']"
  by (simp add: ds_verification_run keys_def)

text \<open>
  Claim C4, amended. When the data-source-status activity returns \<open>success\<close> for the
  message type \<open>verification\<close>, the message handed off has exactly the keys \<open>type\<close>,
  \<open>connection_id\<close>, \<open>tenant_id\<close>, \<open>status\<close>, \<open>options\<close> and \<open>error\<close>. The value of
  \<open>options\<close> is the parsed \<open>verification_options\<close> when that was supplied and \<open>None\<close>
  otherwise; the value of \<open>error\<close> is the stripped \<open>verification_error\<close> when that was
  supplied with more than white space and \<open>None\<close> otherwise.
\<close>

theorem verification_message_fields:
  assumes "field (fst (ds_execute env url queue mt co te st em dp vo ve)) ''status''
           = Some (PStr ''success'')"
    and "stripped mt = PStr ''verification''"
  shows "\<exists>opt. snd (ds_execute env url queue mt co te st em dp vo ve)
                = [(PDict [(''type'', PStr ''verification''),
                           (''connection_id'', stripped co), (''tenant_id'', stripped te),
                           (''status'', auto_status (stripped st) (stripped ve)),
                           (''options'', opt),
                           (''error'', if nonblank ve then stripped ve else PNone)],
                    url, queue)]
              \<and> (if truthy vo then loads_if_str env vo = Inr opt else opt = PNone)"
proof -
  from ds_discipline [of env url queue mt co te st em dp vo ve] assms(1)
  obtain m where
    log: "snd (ds_execute env url queue mt co te st em dp vo ve) = [(m, url, queue)]" and
    "ds_passed env url queue mt co te st em dp vo ve m"
    by (auto simp: hand_off_discipline_def)
  from ds_passed_stripped [OF this(2)] assms(2)
  have "ds_verification_branch env (stripped co) (stripped te) (stripped st)
          (or_none vo) (stripped ve) = Inr (Inr m)"
    by auto
  from verification_message [OF this] log show ?thesis
    by (auto simp: truthy_stripped or_none_def)
qed

theorem verification_message_fields_witness:
  "snd (ds_execute sample_env (PStr ''amqp://h'') (PStr ''q'') (PStr ''verification'')
          (PStr ''c1'') (PStr ''t'') PNone PNone PNone (PStr ''{}'') (PStr ''bad key''))
   = [(PDict [(''type'', PStr ''verification''), (''connection_id'', PStr ''c1''),
              (''tenant_id'', PStr ''t''), (''status'', PStr ''failed''),
              (''options'', PDict []), (''error'', PStr ''bad key'')],
       PStr ''amqp://h'', PStr ''q'')]"
proof -
  have ok: "field (fst (ds_execute sample_env (PStr ''amqp://h'') (PStr ''q'')
          (PStr ''verification'') (PStr ''c1'') (PStr ''t'') PNone PNone PNone (PStr ''{}'')
          (PStr ''bad key''))) ''status'' = Some (PStr ''success'')"
    by (simp add: ds_verification_failed_run field_def)
  have mt: "stripped (PStr ''verification'') = PStr ''verification''" by code_simp
  from verification_message_fields [OF ok mt] show ?thesis
    by (auto simp: ds_verification_failed_run)
qed




lemma py_int_PInt [simp]: "py_int env (PInt n) = Inr n"
  by (simp add: py_int_def)





section \<open>What depends on the clock\<close>

lemma loads_if_str_clock [simp]:
  "loads_if_str (env\<lparr>utcnow := t\<rparr>) v = loads_if_str env v"
  by (simp add: loads_if_str_def cong: pyval.case_cong sum.case_cong option.case_cong)

lemma py_int_clock [simp]: "py_int (env\<lparr>utcnow := t\<rparr>) v = py_int env v"
  by (simp add: py_int_def cong: pyval.case_cong sum.case_cong option.case_cong)

lemma validators_clock [simp]:
  "validate_parameters (env\<lparr>utcnow := t\<rparr>) te mi ci so ta = validate_parameters env te mi ci so ta"
  "validate_sync_message (env\<lparr>utcnow := t\<rparr>) co te st em dp
   = validate_sync_message env co te st em dp"
  "validate_verification_message (env\<lparr>utcnow := t\<rparr>) co te st vo ve
   = validate_verification_message env co te st vo ve"
  "convert_documents_processed (env\<lparr>utcnow := t\<rparr>) dp = convert_documents_processed env dp"
  by (simp_all add: validate_parameters_def sources_block_def tasks_block_def
        validate_sync_message_def validate_verification_message_def
        convert_documents_processed_def Let_def cong: pyval.case_cong sum.case_cong option.case_cong)

lemma cm_build_message_clock [simp]:
  "cm_build_message (env\<lparr>utcnow := t\<rparr>) tc rc rt so ta rg te mi ci tu cv
   = cm_build_message env tc rc rt so ta rg te mi ci tu cv"
  by (simp add: cm_build_message_def Let_def cong: pyval.case_cong sum.case_cong option.case_cong)

lemma cm_clock:
  "cm_execute (env\<lparr>utcnow := t\<rparr>) url queue tc rc rt so ta rg te mi ci tu cv
   = cm_execute env url queue tc rc rt so ta rg te mi ci tu cv"
  by (simp add: cm_execute_def cm_body_def Let_def cong: pyval.case_cong sum.case_cong option.case_cong bool.case_cong)

lemma ds_verification_branch_clock [simp]:
  "ds_verification_branch (env\<lparr>utcnow := t\<rparr>) co te st vo ve
   = ds_verification_branch env co te st vo ve"
  by (simp add: ds_verification_branch_def Let_def cong: pyval.case_cong sum.case_cong option.case_cong)


lemma catch_all_pair:
  "catch_all (Inl e, l) = (error_result (exn_str e), l)"
  "catch_all (Inr v, l) = (v, l)"
  by (simp_all add: catch_all_def)

lemma erase_clock_pair:
  "erase_clock (r, l) = (erase_result r, map (\<lambda>p. (without_timestamp (fst p), snd p)) l)"
  by (simp add: erase_clock_def)

lemma erase_result_error [simp]:
  "erase_result (error_result m) = error_result m"
  "erase_result (validation_failed m) = validation_failed m"
  by (simp_all add: erase_result_def error_result_def validation_failed_def)

lemma hand_off_accepting:
  "pika_import env = None \<Longrightarrow> \<forall>m u q. broker env m u q = None
   \<Longrightarrow> hand_off (env\<lparr>utcnow := t\<rparr>) m url queue s = (Inr s, [(m, url, queue)])
       \<and> hand_off env m url queue s = (Inr s, [(m, url, queue)])"
  by (simp add: hand_off_def)

lemma without_timestamp_dp:
  "without_timestamp (dp_build_message (env\<lparr>utcnow := t\<rparr>) bm te us st pm em)
   = without_timestamp (dp_build_message env bm te us st pm em)"
  by (simp add: dp_build_message_eq without_timestamp_def)

lemma dp_clock:
  assumes "pika_import env = None" "\<forall>m u q. broker env m u q = None"
  shows "erase_clock (dp_execute (env\<lparr>utcnow := t\<rparr>) url queue bm te us st pm em)
         = erase_clock (dp_execute env url queue bm te us st pm em)"
  unfolding dp_execute_def dp_body_def Let_def
  by (simp add: hand_off_accepting [OF assms] catch_all_pair erase_clock_pair
        without_timestamp_dp erase_result_def split: sum.split option.split)


lemma ds_sync_branch_eq:
  "ds_sync_branch env co te st em dp =
     (case validate_sync_message env co te st em dp of
        Some m \<Rightarrow> Inl (validation_failed m)
      | None \<Rightarrow>
          Inr (PDict ([(''type'', PStr ''sync''), (''connection_id'', co), (''tenant_id'', te),
                       (''status'', st), (''timestamp'', PStr (utcnow env))]
                      @ (if truthy em then [(''error_message'', em)] else [])
                      @ (if dp \<noteq> PNone then [(''documents_processed'', dp)] else []))))"
  by (simp add: ds_sync_branch_def Let_def cong: option.case_cong)

lemma ds_body_dispatch:
  "ds_body env url queue mt0 co0 te0 st0 em0 dp0 vo0 ve0 =
     (case strip_or_none mt0 of Inl e \<Rightarrow> (Inl e, []) | Inr mt \<Rightarrow>
     (case strip_or_none co0 of Inl e \<Rightarrow> (Inl e, []) | Inr co \<Rightarrow>
     (case strip_or_none te0 of Inl e \<Rightarrow> (Inl e, []) | Inr te \<Rightarrow>
     (case strip_or_none st0 of Inl e \<Rightarrow> (Inl e, []) | Inr st \<Rightarrow>
     (case strip_or_none em0 of Inl e \<Rightarrow> (Inl e, []) | Inr em \<Rightarrow>
     (case strip_or_none ve0 of Inl e \<Rightarrow> (Inl e, []) | Inr ve \<Rightarrow>
     (case convert_documents_processed env dp0 of
        Inl r \<Rightarrow> (Inr r, [])
      | Inr dp \<Rightarrow> ds_dispatch env url queue mt co te st em dp (or_none vo0) ve)))))))"
  by (simp only: ds_body_def ds_dispatch_def Let_def)

lemma ds_dispatch_clock:
  assumes "pika_import env = None" "\<forall>m u q. broker env m u q = None"
  shows "erase_clock (catch_all (ds_dispatch (env\<lparr>utcnow := t\<rparr>) url queue mt co te st em dp vo ve))
         = erase_clock (catch_all (ds_dispatch env url queue mt co te st em dp vo ve))"
proof (cases "validate_rabbitmq_url url queue")
  case (Inl e)
  then show ?thesis by (simp add: ds_dispatch_def catch_all_pair erase_clock_pair)
next
  case (Inr r)
  show ?thesis
  proof (cases r)
    case (Some m)
    with Inr show ?thesis by (simp add: ds_dispatch_def catch_all_pair erase_clock_pair)
  next
    case None
    consider "mt = PStr ''sync''" | "mt = PStr ''verification''"
      | "mt \<noteq> PStr ''sync'' \<and> mt \<noteq> PStr ''verification''" by blast
    then show ?thesis
    proof cases
      case 1
      with Inr None show ?thesis
        by (simp add: ds_dispatch_def hand_off_accepting [OF assms] catch_all_pair
              erase_clock_pair ds_sync_branch_eq without_timestamp_def erase_result_def
              split: option.split)
    next
      case 2
      with Inr None show ?thesis
        by (simp add: ds_dispatch_def hand_off_accepting [OF assms] catch_all_pair
              erase_clock_pair split: sum.split)
    next
      case 3
      with Inr None show ?thesis
        by (simp add: ds_dispatch_def catch_all_pair erase_clock_pair)
    qed
  qed
qed

lemma ds_clock:
  assumes "pika_import env = None" "\<forall>m u q. broker env m u q = None"
  shows "erase_clock (ds_execute (env\<lparr>utcnow := t\<rparr>) url queue mt co te st em dp vo ve)
         = erase_clock (ds_execute env url queue mt co te st em dp vo ve)"
  unfolding ds_execute_def ds_body_dispatch
  by (simp add: ds_dispatch_clock [OF assms] catch_all_pair erase_clock_pair
        split: sum.split)

lemma dp_later_run:
  "dp_execute later_env (PStr ''amqps://h'') (PStr ''q'') (PStr '' b1 '') (PStr ''t'')
     (PStr '' '') (PStr ''processing_failed'') PNone (PStr ''boom'')
   = (PDict [(''status'', PStr ''success''), (''blob_metadata_id'', PStr ''b1''),
             (''processing_status'', PStr ''processing_failed''),
             (''message'',
              PDict [(''type'', PStr ''document_processing''),
                     (''blob_metadata_id'', PStr ''b1''), (''tenant_id'', PStr ''t''),
                     (''status'', PStr ''processing_failed''),
                     (''timestamp'', PStr ''2025-01-01T00:00:01+00:00''),
                     (''error_message'', PStr ''boom'')])],
      [(PDict [(''type'', PStr ''document_processing''),
               (''blob_metadata_id'', PStr ''b1''), (''tenant_id'', PStr ''t''),
               (''status'', PStr ''processing_failed''),
               (''timestamp'', PStr ''2025-01-01T00:00:01+00:00''),
               (''error_message'', PStr ''boom'')],
        PStr ''amqps://h'', PStr ''q'')])"
  by code_simp

text \<open>
  Claim C5, as stated, fails: the document-processing message carries the time of the
  call. Two calls with the same arguments, the same parser and the same accepting broker,
  one second apart, both succeed and differ in message and result.
\<close>

theorem clock_counterexample:
  "pika_import sample_env = None \<and> pika_import later_env = None
   \<and> broker sample_env = broker later_env \<and> json_loads sample_env = json_loads later_env
   \<and> field (fst (dp_execute sample_env (PStr ''amqps://h'') (PStr ''q'') (PStr '' b1 '')
                (PStr ''t'') (PStr '' '') (PStr ''processing_failed'') PNone (PStr ''boom'')))
         ''status'' = Some (PStr ''success'')
   \<and> field (fst (dp_execute later_env (PStr ''amqps://h'') (PStr ''q'') (PStr '' b1 '')
                (PStr ''t'') (PStr '' '') (PStr ''processing_failed'') PNone (PStr ''boom'')))
         ''status'' = Some (PStr ''success'')
   \<and> dp_execute sample_env (PStr ''amqps://h'') (PStr ''q'') (PStr '' b1 '') (PStr ''t'')
        (PStr '' '') (PStr ''processing_failed'') PNone (PStr ''boom'')
       \<noteq> dp_execute later_env (PStr ''amqps://h'') (PStr ''q'') (PStr '' b1 '') (PStr ''t'')
           (PStr '' '') (PStr ''processing_failed'') PNone (PStr ''boom'')"
proof -
  have "pika_import sample_env = None \<and> pika_import later_env = None
        \<and> broker sample_env = broker later_env \<and> json_loads sample_env = json_loads later_env"
    by (simp add: later_env_def sample_env_def)
  then show ?thesis
    by (simp add: dp_sample_run dp_later_run field_def)
qed

text \<open>
  Claim C5, amended. With a hand-off that succeeds, the complete-message activity does
  not depend on the clock at all: two calls with the same arguments give the same message
  and the same result. The data-source-status and document-processing-status activities
  stamp the message with the current UTC time: two calls with the same arguments give
  messages and results that are the same once the \<open>timestamp\<close> is taken out.
\<close>

theorem same_up_to_timestamp:
  assumes "pika_import env = None" and "\<forall>m u q. broker env m u q = None"
  shows "cm_execute (env\<lparr>utcnow := t\<rparr>) url queue tc rc rt so ta rg te mi ci tu cv
         = cm_execute env url queue tc rc rt so ta rg te mi ci tu cv
       \<and> erase_clock (ds_execute (env\<lparr>utcnow := t\<rparr>) url' queue' mt co te' st em dp vo ve)
         = erase_clock (ds_execute env url' queue' mt co te' st em dp vo ve)
       \<and> erase_clock (dp_execute (env\<lparr>utcnow := t\<rparr>) url'' queue'' bm te'' us st' pm em')
         = erase_clock (dp_execute env url'' queue'' bm te'' us st' pm em')"
  by (intro conjI) (rule cm_clock, rule ds_clock [OF assms], rule dp_clock [OF assms])

theorem same_up_to_timestamp_witness:
  "erase_clock (dp_execute later_env (PStr ''amqps://h'') (PStr ''q'') (PStr '' b1 '')
      (PStr ''t'') (PStr '' '') (PStr ''processing_failed'') PNone (PStr ''boom''))
   = erase_clock (dp_execute sample_env (PStr ''amqps://h'') (PStr ''q'') (PStr '' b1 '')
      (PStr ''t'') (PStr '' '') (PStr ''processing_failed'') PNone (PStr ''boom''))"
proof -
  have a: "pika_import sample_env = None" by (simp add: sample_env_def)
  have b: "\<forall>m u q. broker sample_env m u q = None" by (simp add: sample_env_def)
  from same_up_to_timestamp [OF a b, THEN conjunct2, THEN conjunct2]
  show ?thesis unfolding later_env_def .
qed

end
